theory Spec2Isabelle
  imports Complex_Main "HOL-Library.Sublist" "HOL-Library.Extended_Nat"
begin

section \<open>Strings\<close>

text \<open>
  A JavaScript string is a sequence of code units; it is modelled as a \<open>char list\<close>.
  Case mapping and the whitespace class \<open>\s\<close> are modelled on the ASCII range:
  \<open>toLowerCase\<close> maps \<open>A..Z\<close> to \<open>a..z\<close>, and whitespace is space, tab, line feed,
  vertical tab, form feed and carriage return.
\<close>

definition dq :: char where
  "dq = CHR 0x22"

definition apostrophe :: char where
  "apostrophe = CHR 0x27"

definition newline :: char where
  "newline = CHR 0x0A"

definition isSpace :: "char \<Rightarrow> bool" where
  "isSpace c = (c \<in> set [CHR '' '', CHR 0x09, CHR 0x0A, CHR 0x0B, CHR 0x0C, CHR 0x0D])"

definition lowerChar :: "char \<Rightarrow> char" where
  "lowerChar c =
     (case map_of (zip ''ABCDEFGHIJKLMNOPQRSTUVWXYZ'' ''abcdefghijklmnopqrstuvwxyz'') c of
        Some d \<Rightarrow> d
      | None \<Rightarrow> c)"

definition upperChar :: "char \<Rightarrow> char" where
  "upperChar c =
     (case map_of (zip ''abcdefghijklmnopqrstuvwxyz'' ''ABCDEFGHIJKLMNOPQRSTUVWXYZ'') c of
        Some d \<Rightarrow> d
      | None \<Rightarrow> c)"

definition toLowerCase :: "string \<Rightarrow> string" where
  "toLowerCase s = map lowerChar s"

definition toUpperCase :: "string \<Rightarrow> string" where
  "toUpperCase s = map upperChar s"

text \<open>\<open>s.replace(/\s+/g, " ")\<close>: every maximal run of whitespace becomes one space.
  The flag says whether the previous character was whitespace.\<close>

fun collapseFrom :: "bool \<Rightarrow> string \<Rightarrow> string" where
  "collapseFrom inRun [] = []"
| "collapseFrom inRun (c # cs) =
     (if isSpace c then (if inRun then collapseFrom True cs else CHR '' '' # collapseFrom True cs)
      else c # collapseFrom False cs)"

definition collapseWhitespace :: "string \<Rightarrow> string" where
  "collapseWhitespace s = collapseFrom False s"

definition trim :: "string \<Rightarrow> string" where
  "trim s = rev (dropWhile isSpace (rev (dropWhile isSpace s)))"

text \<open>\<open>normalize\<close> of tool-runner.ts: lower-case, collapse whitespace, trim.\<close>

definition normalizeStr :: "string \<Rightarrow> string" where
  "normalizeStr v = trim (collapseWhitespace (toLowerCase v))"

text \<open>\<open>s.indexOf(t)\<close>, with \<open>None\<close> for \<open>-1\<close>; \<open>s.includes(t)\<close>; \<open>s.startsWith(t)\<close>.\<close>

fun indexOf :: "string \<Rightarrow> string \<Rightarrow> nat option" where
  "indexOf [] t = (if t = [] then Some 0 else None)"
| "indexOf (c # cs) t =
     (if prefix t (c # cs) then Some 0 else map_option Suc (indexOf cs t))"

definition strIncludes :: "string \<Rightarrow> string \<Rightarrow> bool" where
  "strIncludes s t = (indexOf s t \<noteq> None)"

definition startsWith :: "string \<Rightarrow> string \<Rightarrow> bool" where
  "startsWith s t = prefix t s"

text \<open>\<open>xs.slice(-n)\<close>: the last \<open>n\<close> entries.\<close>

definition sliceLast :: "nat \<Rightarrow> 'a list \<Rightarrow> 'a list" where
  "sliceLast n xs = drop (length xs - n) xs"

text \<open>\<open>parts.join(sep)\<close>.\<close>

fun joinWith :: "string \<Rightarrow> string list \<Rightarrow> string" where
  "joinWith sep [] = []"
| "joinWith sep [x] = x"
| "joinWith sep (x # y # ys) = x @ sep @ joinWith sep (y # ys)"

text \<open>Decimal rendering of a non-negative integer (template-literal interpolation of an
  integral number below the exponent-notation threshold).\<close>

definition digitChar :: "nat \<Rightarrow> char" where
  "digitChar d = (''0123456789'' ! (d mod 10))"

function showNat :: "nat \<Rightarrow> string" where
  "showNat n = (if n < 10 then [digitChar n] else showNat (n div 10) @ [digitChar (n mod 10)])"
  by pat_completeness auto
termination
  by (relation "measure (\<lambda>n. n)") auto

declare showNat.simps [simp del]

section \<open>Untyped values\<close>

text \<open>
  The planning service's arguments are loosely typed (\<open>unknown\<close> in the source). A number
  is finite (a rational covers every finite double), \<open>NaN\<close> or an infinity.
\<close>

datatype jsnum = Finite rat | NaN | PosInfinity | NegInfinity

datatype jsval =
    JUndefined
  | JNull
  | JBool bool
  | JNum jsnum
  | JStr string
  | JArr "jsval list"
  | JObj "(string \<times> jsval) list"

text \<open>\<open>isObject\<close> / \<open>isRecord\<close>: a non-null, non-array object.\<close>

fun isObject :: "jsval \<Rightarrow> bool" where
  "isObject (JObj _) = True"
| "isObject _ = False"

text \<open>Property read \<open>args[key]\<close> on an object given by its entries.\<close>

definition getProp :: "(string \<times> jsval) list \<Rightarrow> string \<Rightarrow> jsval" where
  "getProp entries k = (case map_of entries k of Some v \<Rightarrow> v | None \<Rightarrow> JUndefined)"

fun readString :: "(string \<times> jsval) list \<Rightarrow> string list \<Rightarrow> string option" where
  "readString args [] = None"
| "readString args (k # ks) =
     (case getProp args k of
        JStr v \<Rightarrow> (if trim v \<noteq> [] then Some (trim v) else readString args ks)
      | _ \<Rightarrow> readString args ks)"

definition isFiniteNum :: "jsnum \<Rightarrow> bool" where
  "isFiniteNum n = (case n of Finite _ \<Rightarrow> True | _ \<Rightarrow> False)"

text \<open>\<open>readNumber\<close>; the conversion \<open>Number(value)\<close> of a string is the runtime's and is
  taken as the parameter \<open>toNumber\<close>.\<close>

fun readNumber :: "(string \<Rightarrow> jsnum) \<Rightarrow> (string \<times> jsval) list \<Rightarrow> string list \<Rightarrow> jsnum option" where
  "readNumber toNumber args [] = None"
| "readNumber toNumber args (k # ks) =
     (case getProp args k of
        JNum n \<Rightarrow> (if isFiniteNum n then Some n else readNumber toNumber args ks)
      | JStr v \<Rightarrow>
          (if trim v \<noteq> [] \<and> isFiniteNum (toNumber v) then Some (toNumber v)
           else readNumber toNumber args ks)
      | _ \<Rightarrow> readNumber toNumber args ks)"

section \<open>Document tree\<close>

text \<open>
  The live document is a tree of elements and text nodes whose root is \<open>document.body\<close>.
  Tag names are kept in lower case (the source lower-cases \<open>tagName\<close> wherever it reads
  it). An element handle is the element's path from the root (child indices) together
  with the node found there; document order is pre-order.
\<close>

datatype node = Element string "(string \<times> string) list" "node list" | Text string

type_synonym path = "nat list"

type_synonym element = "path \<times> node"

fun tagOf :: "node \<Rightarrow> string" where
  "tagOf (Element t a cs) = t"
| "tagOf (Text s) = []"

fun attrsOf :: "node \<Rightarrow> (string \<times> string) list" where
  "attrsOf (Element t a cs) = a"
| "attrsOf (Text s) = []"

fun childrenOf :: "node \<Rightarrow> node list" where
  "childrenOf (Element t a cs) = cs"
| "childrenOf (Text s) = []"

definition getAttribute :: "node \<Rightarrow> string \<Rightarrow> string option" where
  "getAttribute n k = map_of (attrsOf n) k"

definition hasAttribute :: "node \<Rightarrow> string \<Rightarrow> bool" where
  "hasAttribute n k = (getAttribute n k \<noteq> None)"

text \<open>\<open>element.id\<close>: the attribute, or the empty string.\<close>

definition idOf :: "node \<Rightarrow> string" where
  "idOf n = (case getAttribute n ''id'' of Some v \<Rightarrow> v | None \<Rightarrow> [])"

fun textContent :: "node \<Rightarrow> string" where
  "textContent (Text s) = s"
| "textContent (Element t a cs) = concat (map textContent cs)"

fun elementsOf :: "node \<Rightarrow> element list"
  and elementsOfChildren :: "nat \<Rightarrow> node list \<Rightarrow> element list" where
  "elementsOf (Text s) = []"
| "elementsOf (Element t a cs) = ([], Element t a cs) # elementsOfChildren 0 cs"
| "elementsOfChildren i [] = []"
| "elementsOfChildren i (c # cs) =
     map (\<lambda>(p, n). (i # p, n)) (elementsOf c) @ elementsOfChildren (Suc i) cs"

text \<open>\<open>document.querySelectorAll\<close> with one of the fixed selectors of the source, given
  as a predicate on nodes; \<open>element.querySelectorAll\<close> searches proper descendants.\<close>

definition querySelectorAll :: "(node \<Rightarrow> bool) \<Rightarrow> node \<Rightarrow> element list" where
  "querySelectorAll sel doc = filter (\<lambda>e. sel (snd e)) (elementsOf doc)"

definition descendantsOf :: "element \<Rightarrow> element list" where
  "descendantsOf e = map (\<lambda>(q, n). (fst e @ q, n)) (tl (elementsOf (snd e)))"

definition querySelectorAllIn :: "(node \<Rightarrow> bool) \<Rightarrow> element \<Rightarrow> element list" where
  "querySelectorAllIn sel e = filter (\<lambda>d. sel (snd d)) (descendantsOf e)"

definition firstOf :: "'a list \<Rightarrow> 'a option" where
  "firstOf xs = (case xs of [] \<Rightarrow> None | x # _ \<Rightarrow> Some x)"

definition getElementById :: "node \<Rightarrow> string \<Rightarrow> element option" where
  "getElementById doc i =
     (if i = [] then None
      else find (\<lambda>e. getAttribute (snd e) ''id'' = Some i) (elementsOf doc))"

text \<open>The fixed selectors.\<close>

definition selSectionId :: "node \<Rightarrow> bool" where
  "selSectionId n = (tagOf n = ''section'' \<and> hasAttribute n ''id'')"

definition selProjectCard :: "node \<Rightarrow> bool" where
  "selProjectCard n = hasAttribute n ''data-project-card''"

definition selHeading :: "node \<Rightarrow> bool" where
  "selHeading n = (tagOf n \<in> set [''h1'', ''h2'', ''h3''])"

definition selAnchor :: "node \<Rightarrow> bool" where
  "selAnchor n = (tagOf n = ''a'')"

definition selInputOrTextarea :: "node \<Rightarrow> bool" where
  "selInputOrTextarea n = (tagOf n \<in> set [''input'', ''textarea''])"

text \<open>The candidate set of \<open>findByText\<close>:
  \<open>section[id], [data-project-card], a, button, input, textarea, select, h1, h2, h3, p, li\<close>.\<close>

definition selTextCandidates :: "node \<Rightarrow> bool" where
  "selTextCandidates n =
     (selSectionId n \<or> selProjectCard n \<or>
      tagOf n \<in> set [''a'', ''button'', ''input'', ''textarea'', ''select'',
                      ''h1'', ''h2'', ''h3'', ''p'', ''li''])"

text \<open>The candidate set of \<open>collectElements\<close>:
  \<open>section[id], [data-project-card], a[href], button, input, textarea, select, [role='button']\<close>.\<close>

definition selInteractive :: "node \<Rightarrow> bool" where
  "selInteractive n =
     (selSectionId n \<or> selProjectCard n \<or> (tagOf n = ''a'' \<and> hasAttribute n ''href'') \<or>
      tagOf n \<in> set [''button'', ''input'', ''textarea'', ''select''] \<or>
      getAttribute n ''role'' = Some ''button'')"

text \<open>\<open>CHAT_UI_SELECTOR = "[data-chat-ui='true']"\<close> and \<open>isInsideChatUi\<close>:
  \<open>element.closest\<close> looks at the element itself and at every ancestor.\<close>

definition selChatUi :: "node \<Rightarrow> bool" where
  "selChatUi n = (getAttribute n ''data-chat-ui'' = Some ''true'')"

fun closestAlong :: "(node \<Rightarrow> bool) \<Rightarrow> node \<Rightarrow> path \<Rightarrow> bool" where
  "closestAlong sel n [] = sel n"
| "closestAlong sel n (i # p) =
     (sel n \<or> (i < length (childrenOf n) \<and> closestAlong sel (childrenOf n ! i) p))"

definition isInsideChatUi :: "node \<Rightarrow> element \<Rightarrow> bool" where
  "isInsideChatUi doc e = closestAlong selChatUi doc (fst e)"

section \<open>Host environment and world state\<close>

text \<open>
  What the browser provides and the repository does not define is a parameter:
  \<^item> \<open>hostQuery\<close>: \<open>document.querySelector\<close> on an arbitrary selector string; the outer
    \<open>None\<close> is the \<open>SyntaxError\<close> of an invalid selector;
  \<^item> \<open>hostNumber\<close>: the conversion \<open>Number(string)\<close>;
  \<^item> \<open>hostVisible\<close>: the computed-style and bounding-box test of \<open>isVisible\<close>;
  \<^item> \<open>hostCssEscape\<close>: \<open>CSS.escape\<close>, when the browser has it;
  \<^item> \<open>hostNow\<close>: the ISO timestamp at the \<open>k\<close>-th reading of the clock.
\<close>

record host =
  hostQuery :: "node \<Rightarrow> string \<Rightarrow> element option option"
  hostNumber :: "string \<Rightarrow> jsnum"
  hostVisible :: "element \<Rightarrow> bool"
  hostCssEscape :: "(string \<Rightarrow> string) option"
  hostNow :: "nat \<Rightarrow> string"

text \<open>Calls into the browser that change nothing the resolution engine reads.\<close>

datatype effect =
    ScrollBy jsnum
  | ScrollIntoView path string
  | DispatchEvent path string
  | Focus path
  | Click path

text \<open>
  The mutable world: the tree, the location (the URL up to its fragment, and the
  fragment), the title, the values committed to form fields, the elements that carry
  the highlight class (its timed removal after 2600 ms is not modelled), the other
  browser calls in order, and the number of clock readings so far.
\<close>

record world =
  document :: node
  location :: string
  fragment :: string
  title :: string
  fieldValues :: "path \<rightharpoonup> string"
  highlighted :: "path set"
  effects :: "effect list"
  tick :: nat

definition safeQuery :: "host \<Rightarrow> world \<Rightarrow> string \<Rightarrow> element option" where
  "safeQuery h w selector =
     (case hostQuery h (document w) selector of None \<Rightarrow> None | Some r \<Rightarrow> r)"

definition addEffect :: "effect \<Rightarrow> world \<Rightarrow> world" where
  "addEffect x w = w\<lparr>effects := effects w @ [x]\<rparr>"

text \<open>\<open>history.replaceState(null, "", "#id")\<close>: a fragment-only URL replaces the
  fragment of the location.\<close>

definition replaceState :: "string \<Rightarrow> world \<Rightarrow> world" where
  "replaceState frag w = w\<lparr>fragment := frag\<rparr>"

definition addHighlight :: "element \<Rightarrow> world \<Rightarrow> world" where
  "addHighlight e w = w\<lparr>highlighted := insert (fst e) (highlighted w)\<rparr>"

section \<open>Target resolution (tool-runner.ts)\<close>

definition SECTION_ALIASES :: "(string \<times> string list) list" where
  "SECTION_ALIASES =
     [(''hero'', [''hero'', ''home'', ''top'', ''intro'', ''landing'']),
      (''about'', [''about'', ''bio'', ''background'', ''profile'']),
      (''projects'', [''projects'', ''portfolio'', ''work'', ''case studies'', ''case-study'']),
      (''skills'', [''skills'', ''tech'', ''stack'', ''expertise'']),
      (''contact'', [''contact'', ''hire'', ''email'', ''reach'', ''message''])]"

definition ORDINAL_TO_INDEX :: "(string \<times> nat) list" where
  "ORDINAL_TO_INDEX =
     [(''first'', 1), (''second'', 2), (''third'', 3), (''fourth'', 4), (''fifth'', 5)]"

definition isDigit :: "char \<Rightarrow> bool" where
  "isDigit c = (c \<in> set ''0123456789'')"

text \<open>The class \<open>\w\<close> that decides the word boundary \<open>\b\<close>.\<close>

definition isWordChar :: "char \<Rightarrow> bool" where
  "isWordChar c =
     (c \<in> set ''abcdefghijklmnopqrstuvwxyzABCDEFGHIJKLMNOPQRSTUVWXYZ0123456789_'')"

text \<open>
  The first match of \<open>/\b(\d+)\b/\<close>: the leftmost run of digits with a word boundary on
  both sides, so neither preceded nor followed by a letter, digit or underscore. The
  flag says whether the previous character is a word character.
\<close>

fun standaloneInt :: "bool \<Rightarrow> string \<Rightarrow> string option" where
  "standaloneInt prevWord [] = None"
| "standaloneInt prevWord (c # cs) =
     (if isDigit c \<and> \<not> prevWord then
        (case dropWhile isDigit cs of
           [] \<Rightarrow> Some (c # takeWhile isDigit cs)
         | r # _ \<Rightarrow>
             (if isWordChar r then standaloneInt (isWordChar c) cs
              else Some (c # takeWhile isDigit cs)))
      else standaloneInt (isWordChar c) cs)"

definition digitValue :: "char \<Rightarrow> nat" where
  "digitValue c = (case indexOf ''0123456789'' [c] of Some d \<Rightarrow> d | None \<Rightarrow> 0)"

definition decimalValue :: "string \<Rightarrow> nat" where
  "decimalValue ds = foldl (\<lambda>a c. 10 * a + digitValue c) 0 ds"

text \<open>\<open>Number.isFinite(Number(digits))\<close>: a digit string converts to infinity from
  \<open>2^1024 - 2^970\<close> on. Below \<open>2^53\<close> the conversion is exact; the only use of the value
  is its comparison with the number of cards.\<close>

definition digitsFinite :: "string \<Rightarrow> bool" where
  "digitsFinite ds = (decimalValue ds < 2 ^ 1024 - 2 ^ 970)"

definition parseOrdinal :: "string \<Rightarrow> nat option" where
  "parseOrdinal hint =
     (let normalizedHint = normalizeStr hint in
      case find (\<lambda>entry. strIncludes normalizedHint (fst entry)) ORDINAL_TO_INDEX of
        Some entry \<Rightarrow> Some (snd entry)
      | None \<Rightarrow>
          (case standaloneInt False normalizedHint of
             Some ds \<Rightarrow> (if digitsFinite ds then Some (decimalValue ds) else None)
           | None \<Rightarrow> None))"

text \<open>\<open>normalize(hint).replace(/^#/, "")\<close>.\<close>

definition stripHash :: "string \<Rightarrow> string" where
  "stripHash s = (case s of [] \<Rightarrow> [] | c # cs \<Rightarrow> (if c = CHR ''#'' then cs else s))"

definition headingText :: "element \<Rightarrow> string" where
  "headingText e =
     (case firstOf (querySelectorAllIn selHeading e) of
        Some heading \<Rightarrow> textContent (snd heading)
      | None \<Rightarrow> [])"

definition aliasMatch :: "string \<Rightarrow> string \<times> string list \<Rightarrow> bool" where
  "aliasMatch normalizedHint entry = list_ex (\<lambda>alias. strIncludes normalizedHint alias) (snd entry)"

fun resolveAliases :: "node \<Rightarrow> string \<Rightarrow> (string \<times> string list) list \<Rightarrow> element option" where
  "resolveAliases doc normalizedHint [] = None"
| "resolveAliases doc normalizedHint (entry # rest) =
     (if aliasMatch normalizedHint entry then
        (case getElementById doc (fst entry) of
           Some candidate \<Rightarrow> Some candidate
         | None \<Rightarrow> resolveAliases doc normalizedHint rest)
      else resolveAliases doc normalizedHint rest)"

definition sectionCandidates :: "node \<Rightarrow> string \<Rightarrow> element list" where
  "sectionCandidates doc normalizedHint =
     filter (\<lambda>sec. strIncludes (normalizeStr (idOf (snd sec) @ '' '' @ headingText sec)) normalizedHint)
       (querySelectorAll selSectionId doc)"

definition resolveSectionFromHint :: "node \<Rightarrow> string \<Rightarrow> element option" where
  "resolveSectionFromHint doc hint =
     (let normalizedHint = stripHash (normalizeStr hint) in
      if normalizedHint = [] then None
      else case getElementById doc normalizedHint of
        Some directById \<Rightarrow> Some directById
      | None \<Rightarrow>
          (case resolveAliases doc normalizedHint SECTION_ALIASES of
             Some candidate \<Rightarrow> Some candidate
           | None \<Rightarrow> firstOf (sectionCandidates doc normalizedHint)))"

text \<open>\<open>Number(card.dataset.projectOrder)\<close>; \<open>Number(undefined)\<close> is \<open>NaN\<close>.\<close>

definition orderNumber :: "host \<Rightarrow> element \<Rightarrow> jsnum" where
  "orderNumber h pcard =
     (case getAttribute (snd pcard) ''data-project-order'' of
        None \<Rightarrow> NaN
      | Some v \<Rightarrow> hostNumber h v)"

definition cardTitle :: "element \<Rightarrow> string" where
  "cardTitle pcard =
     (case getAttribute (snd pcard) ''data-project-title'' of
        Some t \<Rightarrow> t
      | None \<Rightarrow> textContent (snd pcard))"

definition isSuperlative :: "string \<Rightarrow> bool" where
  "isSuperlative normalizedHint =
     (strIncludes normalizedHint ''most recent'' \<or> strIncludes normalizedHint ''latest'' \<or>
      strIncludes normalizedHint ''newest'')"

definition byTitle :: "element list \<Rightarrow> string \<Rightarrow> element option" where
  "byTitle cards normalizedHint =
     find (\<lambda>pcard. strIncludes (normalizeStr (cardTitle pcard)) normalizedHint) cards"

definition findProjectCardByHint :: "host \<Rightarrow> node \<Rightarrow> string \<Rightarrow> element option" where
  "findProjectCardByHint h doc hint =
     (let cards = querySelectorAll selProjectCard doc in
      case cards of
        [] \<Rightarrow> None
      | firstCard # _ \<Rightarrow>
          (let normalizedHint = normalizeStr hint in
           if isSuperlative normalizedHint then
             (case find (\<lambda>pcard. getAttribute (snd pcard) ''data-project-order'' = Some ''1'') cards of
                Some latest \<Rightarrow> Some latest
              | None \<Rightarrow> Some firstCard)
           else
             (case parseOrdinal normalizedHint of
                Some ordinal \<Rightarrow>
                  (if 1 \<le> ordinal \<and> ordinal \<le> length cards then
                     (case find (\<lambda>pcard. orderNumber h pcard = Finite (of_nat ordinal)) cards of
                        Some byOrder \<Rightarrow> Some byOrder
                      | None \<Rightarrow> Some (cards ! (ordinal - 1)))
                   else byTitle cards normalizedHint)
              | None \<Rightarrow> byTitle cards normalizedHint)))"

definition attrOrEmpty :: "node \<Rightarrow> string \<Rightarrow> string" where
  "attrOrEmpty n k = (case getAttribute n k of Some v \<Rightarrow> v | None \<Rightarrow> [])"

text \<open>The composite string of \<open>findByText\<close>.\<close>

definition compositeText :: "element \<Rightarrow> string" where
  "compositeText e =
     normalizeStr (textContent (snd e) @ '' '' @ attrOrEmpty (snd e) ''aria-label'' @ '' '' @
                   attrOrEmpty (snd e) ''placeholder'' @ '' '' @
                   attrOrEmpty (snd e) ''data-project-title'')"

text \<open>The score; \<open>\<infinity>\<close> is \<open>Number.POSITIVE_INFINITY\<close>.\<close>

definition score :: "string \<Rightarrow> string \<Rightarrow> enat" where
  "score content target =
     (case indexOf content target of
        None \<Rightarrow> \<infinity>
      | Some index \<Rightarrow> enat (index + length content))"

definition textCandidates :: "node \<Rightarrow> element list" where
  "textCandidates doc =
     filter (\<lambda>e. \<not> isInsideChatUi doc e) (querySelectorAll selTextCandidates doc)"

text \<open>\<open>Array.prototype.sort\<close> is stable, as \<open>sort_key\<close> is.\<close>

definition ranked :: "node \<Rightarrow> string \<Rightarrow> (element \<times> enat) list" where
  "ranked doc target =
     sort_key snd
       (filter (\<lambda>item. snd item \<noteq> \<infinity>)
          (map (\<lambda>e. (e, score (compositeText e) target)) (textCandidates doc)))"

definition findByText :: "node \<Rightarrow> string \<Rightarrow> element option" where
  "findByText doc txt =
     (let target = normalizeStr txt in
      if target = [] then None
      else case ranked doc target of
        [] \<Rightarrow> None
      | item # _ \<Rightarrow> Some (fst item))"

definition fieldAttrs :: "element \<Rightarrow> string list" where
  "fieldAttrs candidate =
     map normalizeStr
       (filter (\<lambda>item. item \<noteq> [])
          (List.map_filter (getAttribute (snd candidate))
             [''name'', ''id'', ''placeholder'', ''aria-label'']))"

definition findInputByFieldName :: "node \<Rightarrow> string \<Rightarrow> element option" where
  "findInputByFieldName doc fieldName =
     (let normalizedField = normalizeStr fieldName in
      find (\<lambda>candidate. \<not> isInsideChatUi doc candidate \<and>
                         list_ex (\<lambda>attr. strIncludes attr normalizedField) (fieldAttrs candidate))
        (querySelectorAll selInputOrTextarea doc))"

text \<open>The three strategies of \<open>findElement\<close>, in the order of the source.\<close>

definition bySectionHint :: "node \<Rightarrow> (string \<times> jsval) list \<Rightarrow> element option" where
  "bySectionHint doc args =
     (case readString args [''sectionId'', ''section'', ''targetSection''] of
        Some sectionHint \<Rightarrow> resolveSectionFromHint doc sectionHint
      | None \<Rightarrow> None)"

definition bySelectorHint :: "host \<Rightarrow> world \<Rightarrow> (string \<times> jsval) list \<Rightarrow> element option" where
  "bySelectorHint h w args =
     (case readString args [''selector''] of
        Some selector \<Rightarrow>
          (case safeQuery h w selector of
             Some bySelector \<Rightarrow>
               (if \<not> isInsideChatUi (document w) bySelector then Some bySelector else None)
           | None \<Rightarrow> None)
      | None \<Rightarrow> None)"

definition byTextHint :: "host \<Rightarrow> node \<Rightarrow> (string \<times> jsval) list \<Rightarrow> element option" where
  "byTextHint h doc args =
     (case readString args [''text'', ''label'', ''target'', ''projectName''] of
        Some textHint \<Rightarrow>
          (case findProjectCardByHint h doc textHint of
             Some projectCard \<Rightarrow> Some projectCard
           | None \<Rightarrow>
               (case resolveSectionFromHint doc textHint of
                  Some sec \<Rightarrow> Some sec
                | None \<Rightarrow> findByText doc textHint))
      | None \<Rightarrow> None)"

definition findElement :: "host \<Rightarrow> world \<Rightarrow> (string \<times> jsval) list \<Rightarrow> element option" where
  "findElement h w args =
     (case bySectionHint (document w) args of
        Some sec \<Rightarrow> Some sec
      | None \<Rightarrow>
          (case bySelectorHint h w args of
             Some bySelector \<Rightarrow> Some bySelector
           | None \<Rightarrow> byTextHint h (document w) args))"

section \<open>Action executor (tool-runner.ts)\<close>

text \<open>\<open>ToolCall\<close> is \<open>{ id, name, args }\<close> and \<open>ToolResult\<close> is
  \<open>{ toolCallId, name, success, output }\<close>; the fields \<open>id\<close>, \<open>name\<close>, \<open>args\<close> and \<open>output\<close> carry a
  prefix or suffix here. At run time a name is any string.\<close>

record ToolCall =
  call_id :: string
  call_name :: string
  call_args :: jsval

record ToolResult =
  toolCallId :: string
  toolName :: string
  success :: bool
  outputText :: string

text \<open>A thrown value: an \<open>Error\<close> with its message, or anything else.\<close>

datatype exn = Error string | NonError

definition result :: "ToolCall \<Rightarrow> bool \<Rightarrow> string \<Rightarrow> ToolResult" where
  "result call ok out =
     \<lparr>toolCallId = call_id call, toolName = call_name call, success = ok, outputText = out\<rparr>"

definition describeElement :: "element \<Rightarrow> string" where
  "describeElement e =
     (let txt = trim (collapseWhitespace (textContent (snd e)));
          trimmed = (if txt \<noteq> [] then '' '' @ [dq] @ take 44 txt @ [dq] else [])
      in ''<'' @ tagOf (snd e) @ ''>'' @ trimmed)"

text \<open>\<open>setFieldValue\<close>: only an input or a textarea takes the value; the value is
  committed, \<open>input\<close> and \<open>change\<close> are dispatched and the field is focused.\<close>

definition setFieldValue :: "element \<Rightarrow> string \<Rightarrow> world \<Rightarrow> world" where
  "setFieldValue e v w =
     (if tagOf (snd e) \<in> set [''input'', ''textarea''] then
        addEffect (Focus (fst e))
          (addEffect (DispatchEvent (fst e) ''change'')
             (addEffect (DispatchEvent (fst e) ''input'')
                (w\<lparr>fieldValues := (fieldValues w)(fst e \<mapsto> v)\<rparr>)))
      else w)"

text \<open>\<open>Math.round\<close> of a non-negative finite number.\<close>

definition roundNat :: "rat \<Rightarrow> nat" where
  "roundNat r = nat \<lfloor>r + 1 / 2\<rfloor>"

definition runScrollBy :: "host \<Rightarrow> ToolCall \<Rightarrow> (string \<times> jsval) list \<Rightarrow> world \<Rightarrow> ToolResult \<times> world" where
  "runScrollBy h call args w =
     (case readNumber (hostNumber h) args [''delta'', ''amount''] of
        Some (Finite delta) \<Rightarrow>
          (result call True
             (if 0 \<le> delta then ''Scrolled down by '' @ showNat (roundNat delta) @ '' pixels.''
              else ''Scrolled up by '' @ showNat (roundNat \<bar>delta\<bar>) @ '' pixels.''),
           addEffect (ScrollBy (Finite delta)) w)
      | _ \<Rightarrow> (result call False ''Missing numeric delta argument.'', w))"

definition runNavigateToSection :: "ToolCall \<Rightarrow> (string \<times> jsval) list \<Rightarrow> world \<Rightarrow> ToolResult \<times> world" where
  "runNavigateToSection call args w =
     (case readString args [''sectionId'', ''section'', ''target''] of
        None \<Rightarrow> (result call False ''Missing target section id.'', w)
      | Some sectionHint \<Rightarrow>
          (case resolveSectionFromHint (document w) sectionHint of
             None \<Rightarrow>
               (result call False (''Section '' @ [dq] @ sectionHint @ [dq] @ '' was not found.''), w)
           | Some target \<Rightarrow>
               (let w1 = addEffect (ScrollIntoView (fst target) ''start'') w;
                    w2 = (if idOf (snd target) \<noteq> [] then
                            replaceState (''#'' @ idOf (snd target)) w1
                          else w1);
                    w3 = addHighlight target w2
                in (result call True
                      (''Moved to section '' @ [dq] @
                       (if idOf (snd target) \<noteq> [] then idOf (snd target) else sectionHint) @
                       [dq] @ ''.''),
                    w3))))"

definition linkMentions :: "string \<Rightarrow> element \<Rightarrow> bool" where
  "linkMentions word link = strIncludes (normalizeStr (textContent (snd link))) word"

definition chooseLinkFromProjectCard :: "element \<Rightarrow> string option \<Rightarrow> element option" where
  "chooseLinkFromProjectCard pcard hint =
     (case querySelectorAllIn selAnchor pcard of
        [] \<Rightarrow> None
      | firstLink # others \<Rightarrow>
          (let links = firstLink # others;
               normalizedHint = normalizeStr (case hint of Some t \<Rightarrow> t | None \<Rightarrow> [])
           in if strIncludes normalizedHint ''github'' then
                (case find (linkMentions ''github'') links of
                   Some link \<Rightarrow> Some link
                 | None \<Rightarrow> Some firstLink)
              else if strIncludes normalizedHint ''live'' \<or> strIncludes normalizedHint ''demo'' \<or>
                      strIncludes normalizedHint ''preview'' then
                (case find (linkMentions ''live'') links of
                   Some link \<Rightarrow> Some link
                 | None \<Rightarrow> Some firstLink)
              else Some firstLink))"

text \<open>The in-page fragment case of \<open>runClickElement\<close>: the section an anchor's
  \<open>#fragment\<close> reference resolves to.\<close>

definition fragmentSection :: "node \<Rightarrow> element \<Rightarrow> (string \<times> element) option" where
  "fragmentSection doc target =
     (if tagOf (snd target) = ''a'' then
        (let href = attrOrEmpty (snd target) ''href'' in
         if startsWith href ''#'' then
           (case resolveSectionFromHint doc href of
              Some sec \<Rightarrow> Some (href, sec)
            | None \<Rightarrow> None)
         else None)
      else None)"

definition runClickElement :: "host \<Rightarrow> ToolCall \<Rightarrow> (string \<times> jsval) list \<Rightarrow> world \<Rightarrow> ToolResult \<times> world" where
  "runClickElement h call args w =
     (case findElement h w args of
        None \<Rightarrow> (result call False ''Could not find an element to click.'', w)
      | Some found \<Rightarrow>
          (let hint = readString args [''text'', ''label'', ''target''];
               target =
                 (if selProjectCard (snd found) then
                    (case chooseLinkFromProjectCard found hint of
                       Some projectLink \<Rightarrow> projectLink
                     | None \<Rightarrow> found)
                  else found);
               w1 = addHighlight target (addEffect (ScrollIntoView (fst target) ''center'') w)
           in if tagOf (snd target) = ''button'' \<and> hasAttribute (snd target) ''disabled'' then
                (result call False ''Target button is disabled and cannot be clicked.'', w1)
              else
                (case fragmentSection (document w) target of
                   Some (href, sec) \<Rightarrow>
                     (result call True (''Moved to '' @ href @ ''.''),
                      replaceState href
                        (addHighlight sec (addEffect (ScrollIntoView (fst sec) ''start'') w1)))
                 | None \<Rightarrow>
                     (result call True (''Clicked '' @ describeElement target @ ''.''),
                      addEffect (Click (fst target)) w1))))"

definition runHighlightElement :: "host \<Rightarrow> ToolCall \<Rightarrow> (string \<times> jsval) list \<Rightarrow> world \<Rightarrow> ToolResult \<times> world" where
  "runHighlightElement h call args w =
     (case findElement h w args of
        None \<Rightarrow> (result call False ''Could not find an element to highlight.'', w)
      | Some target \<Rightarrow>
          (result call True (''Highlighted '' @ describeElement target @ ''.''),
           addHighlight target (addEffect (ScrollIntoView (fst target) ''center'') w)))"

text \<open>\<open>fillSingleField\<close>: the explicit selector first, then the field name; the throw
  is the left injection.\<close>

definition fieldTarget :: "host \<Rightarrow> world \<Rightarrow> string \<Rightarrow> string option \<Rightarrow> element option" where
  "fieldTarget h w fieldName selector =
     (case (case selector of Some s \<Rightarrow> safeQuery h w s | None \<Rightarrow> None) of
        Some target \<Rightarrow> Some target
      | None \<Rightarrow> findInputByFieldName (document w) fieldName)"

definition fillSingleField ::
  "host \<Rightarrow> ToolCall \<Rightarrow> string \<Rightarrow> string \<Rightarrow> string option \<Rightarrow> world \<Rightarrow> exn + string \<times> world" where
  "fillSingleField h call fieldName v selector w =
     (case fieldTarget h w fieldName selector of
        None \<Rightarrow> Inl (Error (''Could not find input field for '' @ [dq] @ fieldName @ [dq] @ ''.''))
      | Some target \<Rightarrow> Inr (fieldName @ '' updated'', addHighlight target (setFieldValue target v w)))"

text \<open>The entries of \<open>values\<close> whose value is a string, in the order of
  \<open>Object.entries\<close>.\<close>

fun stringEntries :: "(string \<times> jsval) list \<Rightarrow> (string \<times> string) list" where
  "stringEntries [] = []"
| "stringEntries ((k, JStr v) # rest) = (k, v) # stringEntries rest"
| "stringEntries ((k, _) # rest) = stringEntries rest"

definition errorText :: "exn \<Rightarrow> string \<Rightarrow> string" where
  "errorText e fallback = (case e of Error message \<Rightarrow> message | NonError \<Rightarrow> fallback)"

text \<open>The loop over the updates, with its early return from the \<open>catch\<close>.\<close>

fun fillUpdates ::
  "host \<Rightarrow> ToolCall \<Rightarrow> string option \<Rightarrow> (string \<times> string) list \<Rightarrow> string list \<Rightarrow> world
     \<Rightarrow> ToolResult \<times> world" where
  "fillUpdates h call selector [] outputs w =
     (result call True
        (''Filled '' @ showNat (length outputs) @ '' field(s): '' @ joinWith '', '' outputs @ ''.''),
      w)"
| "fillUpdates h call selector ((fieldName, v) # rest) outputs w =
     (case fillSingleField h call fieldName v selector w of
        Inl e \<Rightarrow> (result call False (errorText e ''Unknown field error.''), w)
      | Inr (out, w') \<Rightarrow> fillUpdates h call selector rest (outputs @ [out]) w')"

definition fillSingleValue ::
  "host \<Rightarrow> ToolCall \<Rightarrow> (string \<times> jsval) list \<Rightarrow> string option \<Rightarrow> world \<Rightarrow> ToolResult \<times> world" where
  "fillSingleValue h call args selector w =
     (case readString args [''value''] of
        None \<Rightarrow> (result call False ''Missing input value.'', w)
      | Some v \<Rightarrow>
          (let fieldName =
                 (case readString args [''fieldName'', ''name'', ''field''] of
                    Some f \<Rightarrow> f
                  | None \<Rightarrow> ''input'')
           in case fillSingleField h call fieldName v selector w of
                Inl e \<Rightarrow> (result call False (errorText e ''Could not fill input field.''), w)
              | Inr (out, w') \<Rightarrow>
                  (result call True (out @ '' with '' @ [dq] @ take 80 v @ [dq] @ ''.''), w')))"

definition runFillInput :: "host \<Rightarrow> ToolCall \<Rightarrow> (string \<times> jsval) list \<Rightarrow> world \<Rightarrow> ToolResult \<times> world" where
  "runFillInput h call args w =
     (let selector = readString args [''selector''] in
      case getProp args ''values'' of
        JObj entries \<Rightarrow>
          (if stringEntries entries \<noteq> [] then
             fillUpdates h call selector (stringEntries entries) [] w
           else fillSingleValue h call args selector w)
      | _ \<Rightarrow> fillSingleValue h call args selector w)"

definition executeToolCall :: "host \<Rightarrow> ToolCall \<Rightarrow> world \<Rightarrow> ToolResult \<times> world" where
  "executeToolCall h call w =
     (case call_args call of
        JObj args \<Rightarrow>
          (if call_name call = ''scroll_by'' then runScrollBy h call args w
           else if call_name call = ''navigate_to_section'' then runNavigateToSection call args w
           else if call_name call = ''click_element'' then runClickElement h call args w
           else if call_name call = ''highlight_element'' then runHighlightElement h call args w
           else if call_name call = ''fill_input'' then runFillInput h call args w
           else (result call False (''Unknown tool '' @ [dq] @ call_name call @ [dq] @ ''.''), w))
      | _ \<Rightarrow> (result call False ''Invalid tool arguments.'', w))"

section \<open>Snapshot extractor (page-snapshot.ts)\<close>

definition MAX_SECTIONS :: nat where
  "MAX_SECTIONS = 12"

definition MAX_ELEMENTS :: nat where
  "MAX_ELEMENTS = 160"

definition MAX_TEXT :: nat where
  "MAX_TEXT = 260"

record SectionData =
  sectionId :: string
  heading :: string
  textPreview :: string

text \<open>\<open>ElementData\<close>; its \<open>text\<close> and \<open>sectionId\<close> fields are \<open>elText\<close> and \<open>inSection\<close>
  here.\<close>

record ElementData =
  selector :: string
  tag :: string
  elText :: string
  ariaLabel :: string
  href :: string
  inputName :: string
  inputType :: string
  inSection :: string

record ('s, 'e) PageSnapshot =
  url :: string
  pageTitle :: string
  capturedAt :: string
  sections :: "'s list"
  elements :: "'e list"

text \<open>\<open>normalizeText\<close>; every call of the source passes a limit of at least 40, so the
  \<open>maxLength - 3\<close> of the slice is never negative.\<close>

definition normalizeText :: "string \<Rightarrow> nat \<Rightarrow> string" where
  "normalizeText v maxLength =
     (let trimmed = trim (collapseWhitespace v) in
      if length trimmed \<le> maxLength then trimmed
      else take (maxLength - 3) trimmed @ ''...'')"

definition escapeAttribute :: "string \<Rightarrow> string" where
  "escapeAttribute v =
     concat (map (\<lambda>c. if c = CHR 0x5C \<or> c = dq then [CHR 0x5C, c] else [c]) v)"

definition isIdentChar :: "char \<Rightarrow> bool" where
  "isIdentChar c =
     (c \<in> set ''abcdefghijklmnopqrstuvwxyzABCDEFGHIJKLMNOPQRSTUVWXYZ0123456789_-'')"

definition escapeCssIdentifier :: "host \<Rightarrow> string \<Rightarrow> string" where
  "escapeCssIdentifier h v =
     (case hostCssEscape h of
        Some esc \<Rightarrow> esc v
      | None \<Rightarrow> concat (map (\<lambda>c. if isIdentChar c then [c] else [CHR 0x5C, c]) v))"

fun nodeAt :: "node \<Rightarrow> path \<Rightarrow> node option" where
  "nodeAt n [] = Some n"
| "nodeAt n (i # p) =
     (if i < length (childrenOf n) then nodeAt (childrenOf n ! i) p else None)"

fun isElementNode :: "node \<Rightarrow> bool" where
  "isElementNode (Element t a cs) = True"
| "isElementNode (Text s) = False"

text \<open>The position of a child among its siblings of the same tag, counted from 1.\<close>

definition nthOfType :: "node \<Rightarrow> nat \<Rightarrow> node \<Rightarrow> nat" where
  "nthOfType parent i n =
     length (filter (\<lambda>c. isElementNode c \<and> tagOf c = tagOf n) (take i (childrenOf parent))) + 1"

text \<open>
  The positional walk of \<open>buildSelector\<close>: at most four steps upwards, stopping at an
  ancestor with an identifier or at \<open>document.body\<close> (the empty path). The first argument
  counts the steps left.
\<close>

fun walkUp :: "host \<Rightarrow> node \<Rightarrow> nat \<Rightarrow> path \<Rightarrow> string list \<Rightarrow> string list" where
  "walkUp h doc 0 current acc = acc"
| "walkUp h doc (Suc k) current acc =
     (if current = [] then acc
      else case nodeAt doc current of
        None \<Rightarrow> acc
      | Some n \<Rightarrow>
          (if idOf n \<noteq> [] then (''#'' @ escapeCssIdentifier h (idOf n)) # acc
           else case nodeAt doc (butlast current) of
             None \<Rightarrow> tagOf n # acc
           | Some parent \<Rightarrow>
               walkUp h doc k (butlast current)
                 ((tagOf n @ '':nth-of-type('' @ showNat (nthOfType parent (last current) n) @ '')'')
                  # acc)))"

definition countMatching :: "node \<Rightarrow> string \<Rightarrow> string \<Rightarrow> string \<Rightarrow> nat" where
  "countMatching doc t k v =
     length (filter (\<lambda>e. tagOf (snd e) = t \<and> getAttribute (snd e) k = Some v) (elementsOf doc))"

definition buildSelector :: "host \<Rightarrow> node \<Rightarrow> element \<Rightarrow> string" where
  "buildSelector h doc e =
     (let n = snd e; t = tagOf n;
          byName = t @ ''[name='' @ [dq] @ escapeAttribute (attrOrEmpty n ''name'') @ [dq] @ '']'';
          byHref = ''a[href='' @ [dq] @ escapeAttribute (attrOrEmpty n ''href'') @ [dq] @ '']''
      in if idOf n \<noteq> [] then ''#'' @ escapeCssIdentifier h (idOf n)
         else if attrOrEmpty n ''name'' \<noteq> [] \<and> countMatching doc t ''name'' (attrOrEmpty n ''name'') = 1
           then byName
         else if attrOrEmpty n ''href'' \<noteq> [] \<and> t = ''a'' \<and>
                 countMatching doc ''a'' ''href'' (attrOrEmpty n ''href'') = 1
           then byHref
         else joinWith '' > '' (walkUp h doc 4 (fst e) []))"

text \<open>The callback of \<open>collectSections\<close>. \<open>textContent\<close> of an element is never null, so
  the last fallback of the preview is dead.\<close>

definition sectionData :: "element \<Rightarrow> SectionData" where
  "sectionData sec =
     (let headingSource =
            (case firstOf (querySelectorAllIn selHeading sec) of
               Some hd1 \<Rightarrow> textContent (snd hd1)
             | None \<Rightarrow> idOf (snd sec));
          previewSource =
            (case getAttribute (snd sec) ''data-summary'' of
               Some summary \<Rightarrow> summary
             | None \<Rightarrow> textContent (snd sec))
      in \<lparr>sectionId = idOf (snd sec),
          heading = normalizeText headingSource 80,
          textPreview = normalizeText previewSource MAX_TEXT\<rparr>)"

definition collectSections :: "host \<Rightarrow> element \<Rightarrow> SectionData list" where
  "collectSections h rootEl =
     map sectionData
       (take MAX_SECTIONS (filter (hostVisible h) (querySelectorAllIn selSectionId rootEl)))"

text \<open>\<open>element.closest("section[id]")?.id ?? ""\<close>: the identifier of the innermost
  enclosing section, the element itself included.\<close>

fun closestSectionId :: "node \<Rightarrow> path \<Rightarrow> string \<Rightarrow> string" where
  "closestSectionId n [] found = (if selSectionId n then idOf n else found)"
| "closestSectionId n (i # p) found =
     (if i < length (childrenOf n) then
        closestSectionId (childrenOf n ! i) p (if selSectionId n then idOf n else found)
      else (if selSectionId n then idOf n else found))"

definition elementData :: "host \<Rightarrow> node \<Rightarrow> element \<Rightarrow> ElementData" where
  "elementData h doc e =
     (let n = snd e;
          textSource =
            joinWith '' ''
              (filter (\<lambda>item. item \<noteq> [])
                 (textContent n #
                  List.map_filter (getAttribute n)
                    [''aria-label'', ''placeholder'', ''data-project-title'', ''data-section'']))
      in \<lparr>selector = buildSelector h doc e,
          tag = tagOf n,
          elText = normalizeText textSource 120,
          ariaLabel = normalizeText (attrOrEmpty n ''aria-label'') 80,
          href = normalizeText (attrOrEmpty n ''href'') 120,
          inputName =
            normalizeText
              (case getAttribute n ''name'' of
                 Some v \<Rightarrow> v
               | None \<Rightarrow>
                   (case getAttribute n ''id'' of
                      Some v \<Rightarrow> v
                    | None \<Rightarrow> attrOrEmpty n ''placeholder''))
              80,
          inputType = normalizeText (attrOrEmpty n ''type'') 40,
          inSection = closestSectionId doc (fst e) []\<rparr>)"

definition collectElements :: "host \<Rightarrow> node \<Rightarrow> element \<Rightarrow> ElementData list" where
  "collectElements h doc rootEl =
     map (elementData h doc)
       (take MAX_ELEMENTS (filter (hostVisible h) (querySelectorAllIn selInteractive rootEl)))"

text \<open>\<open>document.querySelector("[data-portfolio-root]") ?? document.body\<close>.\<close>

definition snapshotRoot :: "node \<Rightarrow> element" where
  "snapshotRoot doc =
     (case firstOf (querySelectorAll (\<lambda>n. hasAttribute n ''data-portfolio-root'') doc) of
        Some r \<Rightarrow> r
      | None \<Rightarrow> ([], doc))"

text \<open>\<open>extractPageSnapshot\<close> reads the clock once.\<close>

definition extractPageSnapshot :: "host \<Rightarrow> world \<Rightarrow> (SectionData, ElementData) PageSnapshot \<times> world" where
  "extractPageSnapshot h w =
     (\<lparr>url = location w @ fragment w,
       pageTitle = title w,
       capturedAt = hostNow h (tick w),
       sections = collectSections h (snapshotRoot (document w)),
       elements = collectElements h (document w) (snapshotRoot (document w))\<rparr>,
      w\<lparr>tick := Suc (tick w)\<rparr>)"

section \<open>Planning endpoint (the chat route)\<close>

definition MAX_TOOL_CALLS_PER_TURN :: nat where
  "MAX_TOOL_CALLS_PER_TURN = 3"

definition HISTORY_WINDOW :: nat where
  "HISTORY_WINDOW = 10"

definition TOOL_NAMES :: "string list" where
  "TOOL_NAMES =
     [''scroll_by'', ''navigate_to_section'', ''click_element'', ''highlight_element'',
      ''fill_input'']"

record ChatMessage =
  role :: string
  content :: string
  createdAt :: string

text \<open>A part of the planning service's reply: optional text and an optional function
  call, whose name is a string or missing.\<close>

record GeminiFunctionCall =
  fc_name :: "string option"
  fc_args :: jsval

record GeminiPart =
  part_text :: "string option"
  functionCall :: "GeminiFunctionCall option"

text \<open>A reply is its list of candidates; a candidate is its list of parts, if it has
  a content with parts.\<close>

type_synonym GeminiResponse = "GeminiPart list option list"

text \<open>What the endpoint sends to the planning service.\<close>

record GeminiPayload =
  promptText :: string
  withTools :: bool
  temperature :: rat

text \<open>
  The endpoint's environment: the configured credential, the planning service
  (\<open>callGemini\<close>, whose failure is a thrown error), \<open>JSON.stringify(_, null, 2)\<close>,
  \<open>JSON.parse\<close> (\<open>None\<close> when it throws) and the identifier of the \<open>k\<close>-th call
  (\<open>crypto.randomUUID\<close>, or the time-based fallback).
\<close>

record server =
  apiKey :: "string option"
  callGemini :: "GeminiPayload \<Rightarrow> exn + GeminiResponse"
  stringify :: "jsval \<Rightarrow> string"
  jsonParse :: "string \<Rightarrow> jsval option"
  newCallId :: "nat \<Rightarrow> string"

definition asString :: "jsval \<Rightarrow> string option" where
  "asString v = (case v of JStr s \<Rightarrow> Some s | _ \<Rightarrow> None)"

definition asChatMessage :: "jsval \<Rightarrow> ChatMessage option" where
  "asChatMessage item =
     (case item of
        JObj props \<Rightarrow>
          (case (asString (getProp props ''role''), asString (getProp props ''content''),
                 asString (getProp props ''createdAt'')) of
             (Some r, Some c, Some t) \<Rightarrow> Some \<lparr>role = r, content = c, createdAt = t\<rparr>
           | _ \<Rightarrow> None)
      | _ \<Rightarrow> None)"

definition toHistory :: "jsval \<Rightarrow> ChatMessage list" where
  "toHistory history =
     (case history of
        JArr items \<Rightarrow>
          map (\<lambda>m. m\<lparr>content := take 1200 (content m)\<rparr>)
            (sliceLast HISTORY_WINDOW (List.map_filter asChatMessage items))
      | _ \<Rightarrow> [])"

definition asToolResult :: "jsval \<Rightarrow> ToolResult option" where
  "asToolResult item =
     (case item of
        JObj props \<Rightarrow>
          (case (asString (getProp props ''toolCallId''), asString (getProp props ''name''),
                 getProp props ''success'', asString (getProp props ''output'')) of
             (Some i, Some n, JBool ok, Some out) \<Rightarrow>
               Some \<lparr>toolCallId = i, toolName = n, success = ok, outputText = out\<rparr>
           | _ \<Rightarrow> None)
      | _ \<Rightarrow> None)"

definition toToolResults :: "jsval \<Rightarrow> ToolResult list" where
  "toToolResults toolResults =
     (case toolResults of
        JArr items \<Rightarrow> take MAX_TOOL_CALLS_PER_TURN (List.map_filter asToolResult items)
      | _ \<Rightarrow> [])"

text \<open>\<open>isPageSnapshot\<close>, a type guard: the value read under the guard.\<close>

definition asPageSnapshot :: "jsval \<Rightarrow> (jsval, jsval) PageSnapshot option" where
  "asPageSnapshot snapshot =
     (case snapshot of
        JObj props \<Rightarrow>
          (case (getProp props ''url'', getProp props ''title'', getProp props ''capturedAt'',
                 getProp props ''sections'', getProp props ''elements'') of
             (JStr u, JStr t, JStr c, JArr ss, JArr es) \<Rightarrow>
               Some \<lparr>url = u, pageTitle = t, capturedAt = c, sections = ss, elements = es\<rparr>
           | _ \<Rightarrow> None)
      | _ \<Rightarrow> None)"

definition isPageSnapshot :: "jsval \<Rightarrow> bool" where
  "isPageSnapshot snapshot = (asPageSnapshot snapshot \<noteq> None)"

definition slimSnapshot :: "(jsval, jsval) PageSnapshot \<Rightarrow> jsval" where
  "slimSnapshot snapshot =
     JObj [(''url'', JStr (url snapshot)),
           (''title'', JStr (pageTitle snapshot)),
           (''capturedAt'', JStr (PageSnapshot.capturedAt snapshot)),
           (''sections'', JArr (take 10 (sections snapshot))),
           (''elements'', JArr (take 80 (elements snapshot)))]"

definition historyToText :: "ChatMessage list \<Rightarrow> string" where
  "historyToText history =
     (if history = [] then ''No previous conversation.''
      else joinWith [newline] (map (\<lambda>m. toUpperCase (role m) @ '': '' @ content m) history))"

definition parseFunctionArgs :: "server \<Rightarrow> jsval \<Rightarrow> jsval" where
  "parseFunctionArgs srv v =
     (case v of
        JObj props \<Rightarrow> JObj props
      | JStr s \<Rightarrow>
          (case jsonParse srv s of
             Some (JObj parsed) \<Rightarrow> JObj parsed
           | _ \<Rightarrow> JObj [])
      | _ \<Rightarrow> JObj [])"

definition parseGeminiParts :: "GeminiResponse \<Rightarrow> GeminiPart list" where
  "parseGeminiParts response =
     (case response of
        Some parts # _ \<Rightarrow> parts
      | _ \<Rightarrow> [])"

definition extractText :: "GeminiPart list \<Rightarrow> string" where
  "extractText parts =
     trim (joinWith [newline] (map (\<lambda>p. case part_text p of Some t \<Rightarrow> t | None \<Rightarrow> []) parts))"

text \<open>The loop of \<open>extractToolCalls\<close>, with the calls collected so far.\<close>

fun collectCalls :: "server \<Rightarrow> GeminiPart list \<Rightarrow> ToolCall list \<Rightarrow> ToolCall list" where
  "collectCalls srv [] calls = calls"
| "collectCalls srv (p # rest) calls =
     (case functionCall p of
        None \<Rightarrow> collectCalls srv rest calls
      | Some maybeCall \<Rightarrow>
          (case fc_name maybeCall of
             None \<Rightarrow> collectCalls srv rest calls
           | Some tname \<Rightarrow>
               (if tname \<notin> set TOOL_NAMES then collectCalls srv rest calls
                else collectCalls srv rest
                       (calls @ [\<lparr>call_id = newCallId srv (length calls),
                                  call_name = tname,
                                  call_args = parseFunctionArgs srv (fc_args maybeCall)\<rparr>]))))"

definition extractToolCalls :: "server \<Rightarrow> GeminiPart list \<Rightarrow> ToolCall list" where
  "extractToolCalls srv parts = take MAX_TOOL_CALLS_PER_TURN (collectCalls srv parts [])"

definition normalizeServerErrorMessage :: "string \<Rightarrow> string" where
  "normalizeServerErrorMessage rawMessage =
     (let lower = toLowerCase rawMessage in
      if strIncludes rawMessage ([dq] @ ''code'' @ [dq] @ '': 429'') \<or>
         strIncludes lower ''quota exceeded'' \<or> strIncludes lower ''rate-limits'' then
        ''Gemini key is configured, but quota is exhausted. Enable billing or create a new key with available quota in Google AI Studio.''
      else if strIncludes rawMessage ([dq] @ ''code'' @ [dq] @ '': 401'') \<or>
              strIncludes lower ''api key not valid'' then
        ''Gemini API key is invalid. Update GEMINI_API_KEY in .env.local and redeploy.''
      else if strIncludes rawMessage ([dq] @ ''code'' @ [dq] @ '': 404'') \<or>
              strIncludes lower ''not found'' then
        ''Configured Gemini model is unavailable. Set GEMINI_MODEL to a valid model from ListModels.''
      else rawMessage)"

definition buildPlanningPrompt ::
  "server \<Rightarrow> string \<Rightarrow> ChatMessage list \<Rightarrow> (jsval, jsval) PageSnapshot \<Rightarrow> string" where
  "buildPlanningPrompt srv message history snapshot =
     joinWith [newline]
       [''You are an AI co-browsing assistant for a portfolio website.'',
        ''Use the provided page snapshot to answer questions and decide tool calls.'',
        ''If user intent is ambiguous, ask a clarifying question instead of calling a tool.'',
        ''You may call at most '' @ showNat MAX_TOOL_CALLS_PER_TURN @ '' tools in one turn.'',
        ''For section navigation requests, prefer navigate_to_section with section aliases.'',
        ''For project requests like latest/most recent/second project, use highlight_element or click_element with text hints.'',
        ''For contact form requests with multiple props, prefer one fill_input call using values object.'',
        ''Do not invent sections or elements that do not exist in the snapshot.'',
        '''',
        ''Conversation history:'',
        historyToText history,
        '''',
        ''Latest user message: '' @ message,
        '''',
        ''Current page snapshot (JSON):'',
        stringify srv (slimSnapshot snapshot),
        '''',
        ''First decide: answer directly OR call tools if an action is requested.'']"

definition toolResultJson :: "ToolResult \<Rightarrow> jsval" where
  "toolResultJson r =
     JObj [(''toolCallId'', JStr (toolCallId r)), (''name'', JStr (toolName r)),
           (''success'', JBool (success r)), (''output'', JStr (outputText r))]"

definition buildFinalPrompt ::
  "server \<Rightarrow> string \<Rightarrow> ChatMessage list \<Rightarrow> (jsval, jsval) PageSnapshot \<Rightarrow> ToolResult list \<Rightarrow> string" where
  "buildFinalPrompt srv message history snapshot toolResults =
     joinWith [newline]
       [''You are an AI co-browsing assistant for a portfolio website.'',
        ''You already requested tools and now have execution results.'',
        ''Write the final assistant response for the user.'',
        ''Explain what was done and whether it succeeded.'',
        ''If a tool failed, provide one concrete recovery suggestion.'',
        ''If all tools succeeded, mention the final on-page state the user should now see.'',
        ''Keep the answer concise and conversational.'',
        '''',
        ''Conversation history:'',
        historyToText history,
        '''',
        ''Latest user message: '' @ message,
        '''',
        ''Tool execution results (JSON):'',
        stringify srv (JArr (map toolResultJson toolResults)),
        '''',
        ''Updated page snapshot (JSON):'',
        stringify srv (slimSnapshot snapshot)]"

record ChatResponse =
  assistantMessage :: string
  toolCalls :: "ToolCall list option"
  awaitingToolResults :: bool

definition plainReply :: "string \<Rightarrow> ChatResponse" where
  "plainReply msg = \<lparr>assistantMessage = msg, toolCalls = None, awaitingToolResults = False\<rparr>"

text \<open>The request the handler sends to the planning service, if it gets that far: none
  without a credential, a message or a valid snapshot; the final prompt when tool
  results came with the request, the planning prompt otherwise.\<close>

definition requestMessage :: "(string \<times> jsval) list \<Rightarrow> string" where
  "requestMessage body = (case getProp body ''message'' of JStr m \<Rightarrow> trim m | _ \<Rightarrow> [])"

definition geminiPayload :: "server \<Rightarrow> (string \<times> jsval) list \<Rightarrow> GeminiPayload option" where
  "geminiPayload srv body =
     (let message = requestMessage body;
          history = toHistory (getProp body ''history'');
          toolResults = toToolResults (getProp body ''toolResults'')
      in if apiKey srv = None \<or> apiKey srv = Some [] \<or> message = [] then None
         else case asPageSnapshot (getProp body ''pageSnapshot'') of
           None \<Rightarrow> None
         | Some snapshot \<Rightarrow>
             (if toolResults \<noteq> [] then
                Some \<lparr>promptText = buildFinalPrompt srv message history snapshot toolResults,
                      withTools = False, temperature = 3 / 10\<rparr>
              else
                Some \<lparr>promptText = buildPlanningPrompt srv message history snapshot,
                      withTools = True, temperature = 2 / 10\<rparr>))"

text \<open>\<open>POST\<close>: the status and the body of the response.\<close>

definition POST :: "server \<Rightarrow> (string \<times> jsval) list \<Rightarrow> nat \<times> ChatResponse" where
  "POST srv body =
     (if apiKey srv = None \<or> apiKey srv = Some [] then
        (500, plainReply ''Server configuration is missing GEMINI_API_KEY in environment variables.'')
      else if requestMessage body = [] then (400, plainReply ''Missing user message.'')
      else if \<not> isPageSnapshot (getProp body ''pageSnapshot'') then
        (400, plainReply ''Missing or invalid page snapshot.'')
      else case geminiPayload srv body of
        None \<Rightarrow> (400, plainReply ''Missing or invalid page snapshot.'')
      | Some payload \<Rightarrow>
          (case callGemini srv payload of
             Inl e \<Rightarrow>
               (500, plainReply (''I ran into an error: '' @
                  normalizeServerErrorMessage (errorText e ''Unexpected server error.'')))
           | Inr response \<Rightarrow>
               (if withTools payload then
                  (let parts = parseGeminiParts response;
                       assistantText = extractText parts;
                       calls = extractToolCalls srv parts
                   in (200,
                       \<lparr>assistantMessage =
                          (if assistantText \<noteq> [] then assistantText
                           else if calls \<noteq> [] then ''I will handle that now.'' else []),
                        toolCalls = (if calls \<noteq> [] then Some calls else None),
                        awaitingToolResults = (calls \<noteq> [])\<rparr>))
                else
                  (let finalText = extractText (parseGeminiParts response)
                   in (200, plainReply (if finalText \<noteq> [] then finalText
                                        else ''I completed the requested action.''))))))"

section \<open>Orchestration loop (chat-panel.tsx)\<close>

definition MAX_HISTORY :: nat where
  "MAX_HISTORY = 18"

definition MAX_FLOW_ITEMS :: nat where
  "MAX_FLOW_ITEMS = 10"

datatype FlowStatus = Running | Succeeded | Failed

record FlowItem =
  flow_id :: string
  flow_label :: string
  flow_detail :: string
  flow_status :: FlowStatus

record ChatRequest =
  req_message :: string
  req_history :: "ChatMessage list"
  req_pageSnapshot :: "(SectionData, ElementData) PageSnapshot"
  req_toolResults :: "ToolResult list option"

text \<open>
  The client's state: the component's state variables, the world the actions run
  against, and the requests posted to the endpoint so far, in order. The pauses between
  the steps (\<open>delay\<close>) are not modelled.
\<close>

record session =
  messages :: "ChatMessage list"
  draft :: string
  isBusy :: bool
  isOpen :: bool
  flowItems :: "FlowItem list"
  world :: world
  posted :: "ChatRequest list"

text \<open>\<open>createMessage\<close> reads the clock once.\<close>

definition createMessage :: "host \<Rightarrow> string \<Rightarrow> string \<Rightarrow> world \<Rightarrow> ChatMessage \<times> world" where
  "createMessage h r c w =
     (\<lparr>role = r, content = c, createdAt = hostNow h (tick w)\<rparr>, w\<lparr>tick := Suc (tick w)\<rparr>)"

fun splitOn :: "char \<Rightarrow> string \<Rightarrow> string list" where
  "splitOn sep [] = [[]]"
| "splitOn sep (c # cs) =
     (if c = sep then [] # splitOn sep cs
      else case splitOn sep cs of
        [] \<Rightarrow> [[c]]
      | p # ps \<Rightarrow> (c # p) # ps)"

definition capitalize :: "string \<Rightarrow> string" where
  "capitalize part = (case part of [] \<Rightarrow> [] | c # cs \<Rightarrow> upperChar c # cs)"

definition formatToolLabel :: "string \<Rightarrow> string" where
  "formatToolLabel n = joinWith '' '' (map capitalize (splitOn CHR ''_'' n))"

text \<open>\<open>setMessages(history)\<close> after appending one message to the local \<open>history\<close>.\<close>

definition appendMessage ::
  "host \<Rightarrow> string \<Rightarrow> string \<Rightarrow> ChatMessage list \<Rightarrow> session \<Rightarrow> ChatMessage list \<times> session" where
  "appendMessage h r c history s =
     (let (m, w) = createMessage h r c (world s);
          history' = sliceLast MAX_HISTORY (history @ [m])
      in (history', s\<lparr>messages := history', world := w\<rparr>))"

definition finishFlowItem :: "ToolCall \<Rightarrow> ToolResult \<Rightarrow> FlowItem \<Rightarrow> FlowItem" where
  "finishFlowItem call res item =
     (if flow_id item \<noteq> call_id call then item
      else item\<lparr>flow_detail := outputText res,
                flow_status := (if success res then Succeeded else Failed)\<rparr>)"

text \<open>The execution loop: one call after the other.\<close>

fun runToolCalls ::
  "host \<Rightarrow> ToolCall list \<Rightarrow> ToolResult list \<Rightarrow> ChatMessage list \<Rightarrow> session
     \<Rightarrow> ToolResult list \<times> ChatMessage list \<times> session" where
  "runToolCalls h [] toolResults history s = (toolResults, history, s)"
| "runToolCalls h (call # rest) toolResults history s =
     (let s1 = s\<lparr>flowItems :=
                  sliceLast MAX_FLOW_ITEMS
                    (flowItems s @
                     [\<lparr>flow_id = call_id call, flow_label = formatToolLabel (call_name call),
                       flow_detail = ''Executing action...'', flow_status = Running\<rparr>])\<rparr>;
          (res, w) = executeToolCall h call (world s1);
          s2 = s1\<lparr>world := w, flowItems := map (finishFlowItem call res) (flowItems s1)\<rparr>;
          (history', s3) = appendMessage h ''tool'' (toolName res @ '': '' @ outputText res) history s2
      in runToolCalls h rest (toolResults @ [res]) history' s3)"

text \<open>\<open>postChat\<close> with a freshly extracted snapshot; the request is recorded.\<close>

definition sendChat ::
  "host \<Rightarrow> (ChatRequest \<Rightarrow> exn + ChatResponse) \<Rightarrow> string \<Rightarrow> ChatMessage list
     \<Rightarrow> ToolResult list option \<Rightarrow> session \<Rightarrow> (exn + ChatResponse) \<times> session" where
  "sendChat h postChat message history results s =
     (let (snapshot, w) = extractPageSnapshot h (world s);
          request = \<lparr>req_message = message, req_history = history,
                     req_pageSnapshot = snapshot, req_toolResults = results\<rparr>
      in (postChat request, s\<lparr>world := w, posted := posted s @ [request]\<rparr>))"

text \<open>The body of the \<open>try\<close>, in three steps; each gives the thrown error, if any, and
  the state reached. First the final call, after the execution loop.\<close>

definition executeAndFinalize ::
  "host \<Rightarrow> (ChatRequest \<Rightarrow> exn + ChatResponse) \<Rightarrow> string \<Rightarrow> ToolCall list
     \<Rightarrow> ChatMessage list \<Rightarrow> session \<Rightarrow> exn option \<times> session" where
  "executeAndFinalize h postChat message calls history1 s2 =
     (let (toolResults, history2, s3) = runToolCalls h calls [] history1 s2
      in case sendChat h postChat message history2 (Some toolResults) s3 of
           (Inl e, s4) \<Rightarrow> (Some e, s4)
         | (Inr finalReply, s4) \<Rightarrow>
             (None,
              snd (appendMessage h ''assistant''
                     (if trim (assistantMessage finalReply) \<noteq> []
                      then trim (assistantMessage finalReply)
                      else ''Action completed.'')
                     history2 s4)))"

text \<open>What follows the planning reply.\<close>

definition afterPlanning ::
  "host \<Rightarrow> (ChatRequest \<Rightarrow> exn + ChatResponse) \<Rightarrow> string \<Rightarrow> ChatMessage list
     \<Rightarrow> ChatResponse \<Rightarrow> session \<Rightarrow> exn option \<times> session" where
  "afterPlanning h postChat message history firstReply s1 =
     (let (history1, s2) =
            (if trim (assistantMessage firstReply) \<noteq> [] then
               appendMessage h ''assistant'' (assistantMessage firstReply) history s1
             else (history, s1));
          calls = (case toolCalls firstReply of
                     Some cs \<Rightarrow> take MAX_TOOL_CALLS_PER_TURN cs
                   | None \<Rightarrow> [])
      in if awaitingToolResults firstReply \<and> calls \<noteq> [] then
           executeAndFinalize h postChat message calls history1 s2
         else if trim (assistantMessage firstReply) = [] then
           (None,
            snd (appendMessage h ''assistant''
                   ''I could not generate a response. Please rephrase your request.''
                   history1 s2))
         else (None, s2))"

definition conversationBody ::
  "host \<Rightarrow> (ChatRequest \<Rightarrow> exn + ChatResponse) \<Rightarrow> string \<Rightarrow> ChatMessage list \<Rightarrow> session
     \<Rightarrow> exn option \<times> session" where
  "conversationBody h postChat message history s =
     (case sendChat h postChat message history None s of
        (Inl e, s1) \<Rightarrow> (Some e, s1)
      | (Inr firstReply, s1) \<Rightarrow> afterPlanning h postChat message history firstReply s1)"

definition failureText :: "exn \<Rightarrow> string" where
  "failureText e =
     ''I couldn'' @ [apostrophe] @ ''t complete that request. '' @
     errorText e ''Unexpected error while processing the request.''"

definition runConversation ::
  "host \<Rightarrow> (ChatRequest \<Rightarrow> exn + ChatResponse) \<Rightarrow> string \<Rightarrow> session \<Rightarrow> session" where
  "runConversation h postChat rawMessage s =
     (let message = trim rawMessage in
      if message = [] \<or> isBusy s then s
      else
        (let s0 = s\<lparr>isOpen := True, draft := [], isBusy := True\<rparr>;
             (history, s1) = appendMessage h ''user'' message (messages s0) s0;
             (thrown, s2) = conversationBody h postChat message history s1;
             s3 = (case thrown of
                     None \<Rightarrow> s2
                   | Some e \<Rightarrow> snd (appendMessage h ''assistant'' (failureText e) (messages s2) s2))
         in s3\<lparr>isBusy := False\<rparr>))"

section \<open>Auxiliary notions\<close>

text \<open>A result is correlated with its request.\<close>

definition correlated :: "ToolCall \<Rightarrow> ToolResult \<Rightarrow> bool" where
  "correlated call r = (toolCallId r = call_id call \<and> toolName r = call_name call)"

text \<open>A reply with its action requests cut to the cap, and a planning endpoint whose
  every reply is cut so.\<close>

definition capReply :: "ChatResponse \<Rightarrow> ChatResponse" where
  "capReply r = r\<lparr>toolCalls := map_option (take MAX_TOOL_CALLS_PER_TURN) (toolCalls r)\<rparr>"

definition capReplies :: "(ChatRequest \<Rightarrow> exn + ChatResponse) \<Rightarrow> ChatRequest \<Rightarrow> exn + ChatResponse" where
  "capReplies postChat request =
     (case postChat request of Inl e \<Rightarrow> Inl e | Inr r \<Rightarrow> Inr (capReply r))"

text \<open>The requests posted during one turn.\<close>

definition turnRequests ::
  "host \<Rightarrow> (ChatRequest \<Rightarrow> exn + ChatResponse) \<Rightarrow> string \<Rightarrow> session \<Rightarrow> ChatRequest list" where
  "turnRequests h postChat rawMessage s =
     drop (length (posted s)) (posted (runConversation h postChat rawMessage s))"



text \<open>The session after the user message has been appended, before the planning call.\<close>

definition turnStart :: "host \<Rightarrow> string \<Rightarrow> session \<Rightarrow> ChatMessage list \<times> session" where
  "turnStart h rawMessage s =
     appendMessage h ''user'' (trim rawMessage) (messages s)
       (s\<lparr>isOpen := True, draft := [], isBusy := True\<rparr>)"

text \<open>The planning request of a turn: the message, the history with the user message,
  and the snapshot taken then.\<close>

definition planningRequest :: "host \<Rightarrow> string \<Rightarrow> session \<Rightarrow> ChatRequest" where
  "planningRequest h rawMessage s =
     \<lparr>req_message = trim rawMessage,
      req_history = fst (turnStart h rawMessage s),
      req_pageSnapshot = fst (extractPageSnapshot h (world (snd (turnStart h rawMessage s)))),
      req_toolResults = None\<rparr>"

text \<open>A string in which every whitespace character is a single space between two other
  characters or at an end; the flag says whether a space came just before.\<close>

fun tidy :: "bool \<Rightarrow> string \<Rightarrow> bool" where
  "tidy prevSpace [] = True"
| "tidy prevSpace (c # cs) =
     (if isSpace c then c = CHR '' '' \<and> \<not> prevSpace \<and> tidy True cs else tidy False cs)"

text \<open>The world after the entries that resolve have been filled one after the other,
  and the path of the element an entry resolves to.\<close>

fun applyFills :: "host \<Rightarrow> string option \<Rightarrow> (string \<times> string) list \<Rightarrow> world \<Rightarrow> world" where
  "applyFills h sel [] w = w"
| "applyFills h sel ((fieldName, v) # rest) w =
     (case fieldTarget h w fieldName sel of
        None \<Rightarrow> applyFills h sel rest w
      | Some target \<Rightarrow> applyFills h sel rest (addHighlight target (setFieldValue target v w)))"

definition targetPath :: "host \<Rightarrow> world \<Rightarrow> string option \<Rightarrow> string \<Rightarrow> path option" where
  "targetPath h w sel fieldName = map_option fst (fieldTarget h w fieldName sel)"

section \<open>Concrete inputs\<close>

text \<open>A fragment of the browser for evaluating the model on concrete pages: the selector
  engine on \<open>#id\<close> selectors (any other string counts as invalid), \<open>Number\<close> on plain
  digit strings, every element visible.\<close>

definition idQuery :: "node \<Rightarrow> string \<Rightarrow> element option option" where
  "idQuery doc sel =
     (case sel of
        [] \<Rightarrow> None
      | c # rest \<Rightarrow>
          (if c = CHR ''#'' \<and> rest \<noteq> [] \<and> list_all isIdentChar rest
           then Some (getElementById doc rest) else None))"

definition decimalNumber :: "string \<Rightarrow> jsnum" where
  "decimalNumber s =
     (if s \<noteq> [] \<and> list_all isDigit s then Finite (of_nat (decimalValue s)) else NaN)"

definition demoHost :: host where
  "demoHost =
     \<lparr>hostQuery = idQuery, hostNumber = decimalNumber, hostVisible = (\<lambda>e. True),
      hostCssEscape = None, hostNow = (\<lambda>k. ''t'' @ showNat k)\<rparr>"

text \<open>A page with two project cards whose document order (Beta, Alpha) differs from
  their order attributes (2, 1), a contact form, and the chat interface.\<close>

definition demoPage :: node where
  "demoPage =
     Element ''body'' []
       [Element ''section'' [(''id'', ''projects'')]
          [Element ''h2'' [] [Text ''Projects''],
           Element ''article''
             [(''id'', ''project-b''), (''data-project-card'', ''''),
              (''data-project-title'', ''Beta Board''), (''data-project-order'', ''2'')]
             [Element ''a'' [(''href'', ''https://example.org/beta'')] [Text ''GitHub'']],
           Element ''article''
             [(''id'', ''project-a''), (''data-project-card'', ''''),
              (''data-project-title'', ''Alpha Cart''), (''data-project-order'', ''1'')]
             [Element ''p'' [] [Text ''Shop analytics'']]],
        Element ''section'' [(''id'', ''contact'')]
          [Element ''h2'' [] [Text ''Contact''],
           Element ''input'' [(''id'', ''contact-name''), (''name'', ''name'')] [],
           Element ''input'' [(''id'', ''contact-email''), (''name'', ''email'')] []],
        Element ''div'' [(''data-chat-ui'', ''true'')]
          [Element ''textarea'' [(''id'', ''chat-input''), (''name'', ''chat-input'')] [],
           Element ''button'' [] [Text ''Send contact'']]]"

definition demoWorld :: world where
  "demoWorld =
     \<lparr>document = demoPage, location = ''http://localhost:3000/'', fragment = [],
      title = ''Portfolio'', fieldValues = Map.empty, highlighted = {}, effects = [],
      tick = 0\<rparr>"





text \<open>An endpoint with a credential whose planning service answers nothing, and a
  request with a message and a snapshot of eleven sections.\<close>

definition demoServer :: server where
  "demoServer =
     \<lparr>apiKey = Some ''key'', callGemini = (\<lambda>payload. Inr []),
      stringify = (\<lambda>v. ''json''), jsonParse = (\<lambda>s. None),
      newCallId = (\<lambda>k. ''call-'' @ showNat k)\<rparr>"

definition demoBody :: "(string \<times> jsval) list" where
  "demoBody =
     [(''message'', JStr ''show projects''),
      (''history'', JArr []),
      (''pageSnapshot'',
         JObj [(''url'', JStr ''http://localhost:3000/''), (''title'', JStr ''Portfolio''),
               (''capturedAt'', JStr ''t0''),
               (''sections'', JArr (replicate 11 JNull)),
               (''elements'', JArr [])])]"

text \<open>A planning endpoint that asks for four actions and then closes the turn, one that
  always fails, an idle session on the demo page, and a planning service that returns
  five function calls, four of them with the name of an action.\<close>

definition fourCalls :: "ToolCall list" where
  "fourCalls =
     [\<lparr>call_id = ''c1'', call_name = ''navigate_to_section'',
       call_args = JObj [(''sectionId'', JStr ''contact'')]\<rparr>,
      \<lparr>call_id = ''c2'', call_name = ''highlight_element'',
       call_args = JObj [(''text'', JStr ''latest'')]\<rparr>,
      \<lparr>call_id = ''c3'', call_name = ''fill_input'',
       call_args = JObj [(''fieldName'', JStr ''email''), (''value'', JStr ''alex@test.com'')]\<rparr>,
      \<lparr>call_id = ''c4'', call_name = ''click_element'',
       call_args = JObj [(''text'', JStr ''beta'')]\<rparr>]"

definition planningReply :: ChatResponse where
  "planningReply =
     \<lparr>assistantMessage = ''I will handle that now.'', toolCalls = Some fourCalls,
      awaitingToolResults = True\<rparr>"

definition demoPostChat :: "ChatRequest \<Rightarrow> exn + ChatResponse" where
  "demoPostChat request =
     (case req_toolResults request of
        None \<Rightarrow> Inr planningReply
      | Some results \<Rightarrow> Inr (plainReply ''Done.''))"


definition demoSession :: session where
  "demoSession =
     \<lparr>messages = [\<lparr>role = ''assistant'', content = ''Welcome.'', createdAt = ''start''\<rparr>],
      draft = ''go'', isBusy = False, isOpen = False, flowItems = [],
      world = demoWorld, posted = []\<rparr>"

definition fourParts :: "GeminiPart list" where
  "fourParts =
     map (\<lambda>n. \<lparr>part_text = None,
                 functionCall = Some \<lparr>fc_name = Some n, fc_args = JObj []\<rparr>\<rparr>)
       [''scroll_by'', ''open_tab'', ''click_element'', ''fill_input'', ''highlight_element'']"

definition fourServer :: server where
  "fourServer = demoServer\<lparr>callGemini := (\<lambda>payload. Inr [Some fourParts])\<rparr>"



definition fillCall :: "(string \<times> jsval) list \<Rightarrow> ToolCall" where
  "fillCall args = \<lparr>call_id = ''c1'', call_name = ''fill_input'', call_args = JObj args\<rparr>"

text \<open>A call that names the chat interface's own input by selector.\<close>

definition chatInputArgs :: "(string \<times> jsval) list" where
  "chatInputArgs = [(''selector'', JStr ''#chat-input''), (''value'', JStr ''hi'')]"

section \<open>Properties\<close>

subsection \<open>Snapshot bounds\<close>








subsection \<open>The snapshot forwarded to the planning service\<close>









subsection \<open>The action executor\<close>

lemma correlated_result [simp]: "correlated call (result call ok out)"
  by (simp add: correlated_def result_def)

lemma runScrollBy_correlated: "correlated call (fst (runScrollBy h call args w))"
  by (simp add: runScrollBy_def split: option.splits jsnum.splits)

lemma runNavigateToSection_correlated: "correlated call (fst (runNavigateToSection call args w))"
  by (simp add: runNavigateToSection_def Let_def split: option.splits)

lemma runClickElement_correlated: "correlated call (fst (runClickElement h call args w))"
  by (simp add: runClickElement_def Let_def split: option.splits prod.splits)

lemma runHighlightElement_correlated: "correlated call (fst (runHighlightElement h call args w))"
  by (simp add: runHighlightElement_def split: option.splits)

lemma fillUpdates_correlated:
  "correlated call (fst (fillUpdates h call sel updates outputs w))"
  by (induction updates arbitrary: outputs w) (auto split: sum.splits)

lemma fillSingleValue_correlated:
  "correlated call (fst (fillSingleValue h call args sel w))"
  by (simp add: fillSingleValue_def Let_def split: option.splits sum.splits prod.splits)

lemma runFillInput_correlated: "correlated call (fst (runFillInput h call args w))"
  by (simp add: runFillInput_def Let_def fillUpdates_correlated fillSingleValue_correlated
        split: jsval.splits)

lemma executeToolCall_correlated: "correlated call (fst (executeToolCall h call w))"
  by (simp add: executeToolCall_def runScrollBy_correlated runNavigateToSection_correlated
        runClickElement_correlated runHighlightElement_correlated runFillInput_correlated
        split: jsval.splits)



subsection \<open>The cap on action requests\<close>

lemma appendMessage_posted [simp]: "posted (snd (appendMessage h r c hist s)) = posted s"
  by (simp add: appendMessage_def createMessage_def Let_def)

lemma runToolCalls_ids:
  "map toolCallId (fst (runToolCalls h calls acc hist s)) = map toolCallId acc @ map call_id calls"
proof (induction calls arbitrary: acc hist s)
  case Nil
  then show ?case by simp
next
  case (Cons call rest)
  have "toolCallId (fst (executeToolCall h call w)) = call_id call" for w
    using executeToolCall_correlated [of call h w] by (simp add: correlated_def)
  then show ?case
    by (simp add: Cons.IH Let_def case_prod_beta)
qed

lemma runToolCalls_posted:
  "posted (snd (snd (runToolCalls h calls acc hist s))) = posted s"
  by (induction calls arbitrary: acc hist s) (simp_all add: Let_def case_prod_beta)

lemma sendChat_cap:
  "sendChat h (capReplies pc) m hist rs s =
     (case sendChat h pc m hist rs s of
        (Inl e, s') \<Rightarrow> (Inl e, s')
      | (Inr r, s') \<Rightarrow> (Inr (capReply r), s'))"
  by (simp add: sendChat_def Let_def case_prod_beta capReplies_def split: sum.splits)

lemma executeAndFinalize_cap:
  "executeAndFinalize h (capReplies pc) m calls hist s = executeAndFinalize h pc m calls hist s"
  unfolding executeAndFinalize_def sendChat_cap
  by (simp add: capReply_def case_prod_beta split: prod.splits sum.splits)

lemma afterPlanning_cap:
  "afterPlanning h (capReplies pc) m hist (capReply r) s = afterPlanning h pc m hist r s"
proof -
  have "(case toolCalls (capReply r) of Some cs \<Rightarrow> take MAX_TOOL_CALLS_PER_TURN cs | None \<Rightarrow> []) =
        (case toolCalls r of Some cs \<Rightarrow> take MAX_TOOL_CALLS_PER_TURN cs | None \<Rightarrow> [])"
    by (simp add: capReply_def split: option.splits)
  moreover have "assistantMessage (capReply r) = assistantMessage r"
    and "awaitingToolResults (capReply r) = awaitingToolResults r"
    by (simp_all add: capReply_def)
  ultimately show ?thesis
    unfolding afterPlanning_def by (simp add: executeAndFinalize_cap Let_def case_prod_beta)
qed

lemma conversationBody_cap:
  "conversationBody h (capReplies pc) m hist s = conversationBody h pc m hist s"
  unfolding conversationBody_def sendChat_cap
  by (simp add: afterPlanning_cap split: prod.splits sum.splits)

lemma runConversation_cap:
  "runConversation h (capReplies pc) raw s = runConversation h pc raw s"
  by (simp add: runConversation_def conversationBody_cap Let_def case_prod_beta)

text \<open>The requests a turn posts: the planning request, and after the execution loop the
  final request, whose results answer the calls in order.\<close>

lemma sendChat_posted:
  "posted (snd (sendChat h pc m hist rs s)) =
     posted s @ [\<lparr>req_message = m, req_history = hist,
                  req_pageSnapshot = fst (extractPageSnapshot h (world s)),
                  req_toolResults = rs\<rparr>]"
  by (simp add: sendChat_def Let_def case_prod_beta)

lemma executeAndFinalize_posted:
  "\<exists>req rs. posted (snd (executeAndFinalize h pc m calls hist s)) = posted s @ [req] \<and>
            req_toolResults req = Some rs \<and> map toolCallId rs = map call_id calls"
proof -
  obtain rs hist2 s3 where run: "runToolCalls h calls [] hist s = (rs, hist2, s3)"
    by (cases "runToolCalls h calls [] hist s") auto
  have ids: "map toolCallId rs = map call_id calls"
    using runToolCalls_ids [of h calls "[]" hist s] run by simp
  have p3: "posted s3 = posted s"
    using runToolCalls_posted [of h calls "[]" hist s] run by simp
  have "posted (snd (executeAndFinalize h pc m calls hist s)) =
          posted (snd (sendChat h pc m hist2 (Some rs) s3))"
    unfolding executeAndFinalize_def run
    by (simp add: sendChat_def Let_def case_prod_beta split: sum.splits)
  with ids p3 show ?thesis
    by (simp add: sendChat_posted)
qed

lemma afterPlanning_posted:
  "posted (snd (afterPlanning h pc m hist r s)) = posted s \<or>
   (\<exists>req rs cs. posted (snd (afterPlanning h pc m hist r s)) = posted s @ [req] \<and>
       req_toolResults req = Some rs \<and> toolCalls r = Some cs \<and>
       map toolCallId rs = map call_id (take MAX_TOOL_CALLS_PER_TURN cs))"
proof (cases "awaitingToolResults r \<and>
              (case toolCalls r of Some cs \<Rightarrow> take MAX_TOOL_CALLS_PER_TURN cs | None \<Rightarrow> []) \<noteq> []")
  case False
  then show ?thesis
    by (auto simp: afterPlanning_def Let_def case_prod_beta)
next
  case True
  then obtain cs where cs: "toolCalls r = Some cs"
    by (cases "toolCalls r") auto
  define hs where "hs = (if trim (assistantMessage r) \<noteq> []
                         then appendMessage h ''assistant'' (assistantMessage r) hist s
                         else (hist, s))"
  have ps: "posted (snd hs) = posted s"
    by (simp add: hs_def)
  have "afterPlanning h pc m hist r s =
          executeAndFinalize h pc m (take MAX_TOOL_CALLS_PER_TURN cs) (fst hs) (snd hs)"
    using True cs by (simp add: afterPlanning_def Let_def case_prod_beta hs_def)
  with executeAndFinalize_posted [of h pc m "take MAX_TOOL_CALLS_PER_TURN cs" "fst hs" "snd hs"]
    ps cs show ?thesis by auto
qed

lemma conversationBody_posted:
  "\<exists>req1. req_toolResults req1 = None \<and>
     (posted (snd (conversationBody h pc m hist s)) = posted s @ [req1] \<or>
      (\<exists>req2 rs cs r. posted (snd (conversationBody h pc m hist s)) = posted s @ [req1, req2] \<and>
          pc req1 = Inr r \<and> toolCalls r = Some cs \<and> req_toolResults req2 = Some rs \<and>
          map toolCallId rs = map call_id (take MAX_TOOL_CALLS_PER_TURN cs)))"
proof -
  define req1 where "req1 = \<lparr>req_message = m, req_history = hist,
      req_pageSnapshot = fst (extractPageSnapshot h (world s)), req_toolResults = None\<rparr>"
  define s1 where "s1 = snd (sendChat h pc m hist None s)"
  have send: "sendChat h pc m hist None s = (pc req1, s1)"
    by (simp add: sendChat_def Let_def case_prod_beta req1_def s1_def)
  have p1: "posted s1 = posted s @ [req1]"
    by (simp add: s1_def sendChat_posted req1_def)
  show ?thesis
  proof (cases "pc req1")
    case (Inl e)
    then have "posted (snd (conversationBody h pc m hist s)) = posted s @ [req1]"
      by (simp add: conversationBody_def send p1)
    then show ?thesis by (intro exI [of _ req1]) (simp add: req1_def)
  next
    case (Inr r)
    then have body: "conversationBody h pc m hist s = afterPlanning h pc m hist r s1"
      by (simp add: conversationBody_def send)
    from afterPlanning_posted [of h pc m hist r s1] show ?thesis
    proof
      assume "posted (snd (afterPlanning h pc m hist r s1)) = posted s1"
      then show ?thesis
        by (intro exI [of _ req1]) (simp add: body p1 req1_def)
    next
      assume "\<exists>req rs cs. posted (snd (afterPlanning h pc m hist r s1)) = posted s1 @ [req] \<and>
        req_toolResults req = Some rs \<and> toolCalls r = Some cs \<and>
        map toolCallId rs = map call_id (take MAX_TOOL_CALLS_PER_TURN cs)"
      then obtain req rs cs where
        "posted (snd (afterPlanning h pc m hist r s1)) = posted s1 @ [req]"
        "req_toolResults req = Some rs" "toolCalls r = Some cs"
        "map toolCallId rs = map call_id (take MAX_TOOL_CALLS_PER_TURN cs)"
        by blast
      with Inr show ?thesis
        by (intro exI [of _ req1]) (auto simp: body p1 req1_def)
    qed
  qed
qed

lemma turnRequests_shape:
  "turnRequests h pc raw s = [] \<or>
   (\<exists>req1. req_toolResults req1 = None \<and>
      (turnRequests h pc raw s = [req1] \<or>
       (\<exists>req2 rs cs r. turnRequests h pc raw s = [req1, req2] \<and>
           pc req1 = Inr r \<and> toolCalls r = Some cs \<and> req_toolResults req2 = Some rs \<and>
           map toolCallId rs = map call_id (take MAX_TOOL_CALLS_PER_TURN cs))))"
proof (cases "trim raw = [] \<or> isBusy s")
  case True
  then show ?thesis
    by (auto simp: turnRequests_def runConversation_def)
next
  case False
  define s0 where "s0 = s\<lparr>isOpen := True, draft := [], isBusy := True\<rparr>"
  define u where "u = appendMessage h ''user'' (trim raw) (messages s0) s0"
  define b where "b = conversationBody h pc (trim raw) (fst u) (snd u)"
  have pu: "posted (snd u) = posted s"
    by (simp add: u_def s0_def)
  have "posted (runConversation h pc raw s) = posted (snd b)"
    using False
    by (simp add: runConversation_def Let_def case_prod_beta s0_def u_def b_def
          split: option.splits)
  then have tr: "turnRequests h pc raw s = drop (length (posted s)) (posted (snd b))"
    by (simp add: turnRequests_def)
  from conversationBody_posted [of h pc "trim raw" "fst u" "snd u"]
  show ?thesis
    unfolding b_def [symmetric] pu tr by auto
qed

lemma extractToolCalls_length: "length (extractToolCalls srv parts) \<le> 3"
  by (simp add: extractToolCalls_def MAX_TOOL_CALLS_PER_TURN_def)

lemma POST_toolCalls:
  "toolCalls (snd (POST srv body)) = Some cs \<Longrightarrow> length cs \<le> 3"
  using extractToolCalls_length
  by (auto simp: POST_def plainReply_def Let_def split: if_splits option.splits sum.splits)

lemma afterPlanning_executes:
  assumes "awaitingToolResults r" "toolCalls r = Some cs" "cs \<noteq> []"
  shows "\<exists>req rs. posted (snd (afterPlanning h pc m hist r s)) = posted s @ [req] \<and>
           req_toolResults req = Some rs \<and>
           map toolCallId rs = map call_id (take MAX_TOOL_CALLS_PER_TURN cs)"
proof -
  define hs where "hs = (if trim (assistantMessage r) \<noteq> []
                         then appendMessage h ''assistant'' (assistantMessage r) hist s
                         else (hist, s))"
  have ps: "posted (snd hs) = posted s"
    by (simp add: hs_def)
  have "take MAX_TOOL_CALLS_PER_TURN cs \<noteq> []"
    using assms(3) by (cases cs) (simp_all add: MAX_TOOL_CALLS_PER_TURN_def)
  then have "afterPlanning h pc m hist r s =
          executeAndFinalize h pc m (take MAX_TOOL_CALLS_PER_TURN cs) (fst hs) (snd hs)"
    using assms by (simp add: afterPlanning_def Let_def case_prod_beta hs_def)
  with executeAndFinalize_posted [of h pc m "take MAX_TOOL_CALLS_PER_TURN cs" "fst hs" "snd hs"]
    ps show ?thesis by auto
qed

lemma turn_executes:
  assumes "trim raw \<noteq> []" "\<not> isBusy s"
    and "pc (planningRequest h raw s) = Inr r"
    and "awaitingToolResults r" "toolCalls r = Some cs" "cs \<noteq> []"
  shows "\<exists>req2 rs. turnRequests h pc raw s = [planningRequest h raw s, req2] \<and>
           req_toolResults req2 = Some rs \<and>
           map toolCallId rs = map call_id (take MAX_TOOL_CALLS_PER_TURN cs)"
proof -
  define s0 where "s0 = s\<lparr>isOpen := True, draft := [], isBusy := True\<rparr>"
  define u where "u = appendMessage h ''user'' (trim raw) (messages s0) s0"
  define req1 where "req1 = \<lparr>req_message = trim raw, req_history = fst u,
      req_pageSnapshot = fst (extractPageSnapshot h (world (snd u))), req_toolResults = None\<rparr>"
  define s1 where "s1 = snd (sendChat h pc (trim raw) (fst u) None (snd u))"
  define b where "b = conversationBody h pc (trim raw) (fst u) (snd u)"
  have pu: "posted (snd u) = posted s"
    by (simp add: u_def s0_def)
  have send: "sendChat h pc (trim raw) (fst u) None (snd u) = (pc req1, s1)"
    by (simp add: sendChat_def Let_def case_prod_beta req1_def s1_def)
  have p1: "posted s1 = posted s @ [req1]"
    by (simp add: s1_def sendChat_posted req1_def pu)
  have req1: "req1 = planningRequest h raw s"
    by (simp add: req1_def planningRequest_def turnStart_def u_def s0_def)
  have reply: "pc req1 = Inr r"
    using assms(3) by (simp add: req1)
  have body: "b = afterPlanning h pc (trim raw) (fst u) r s1"
    by (simp add: b_def conversationBody_def send reply)
  have "posted (runConversation h pc raw s) = posted (snd b)"
    using assms(1,2)
    by (simp add: runConversation_def Let_def case_prod_beta s0_def u_def b_def
          split: option.splits)
  then have tr: "turnRequests h pc raw s = drop (length (posted s)) (posted (snd b))"
    by (simp add: turnRequests_def)
  from afterPlanning_executes [OF assms(4,5,6), of h pc "trim raw" "fst u" s1]
  obtain req2 rs where "posted (snd b) = posted s1 @ [req2]" "req_toolResults req2 = Some rs"
    "map toolCallId rs = map call_id (take MAX_TOOL_CALLS_PER_TURN cs)"
    unfolding body by blast
  then show ?thesis
    by (intro exI [of _ req2] exI [of _ rs]) (simp add: tr p1 req1)
qed

lemma turnRequests_results_bound:
  assumes "req \<in> set (turnRequests h pc raw s)" "req_toolResults req = Some rs"
  shows "length rs \<le> 3"
proof -
  have len: "map toolCallId rs' = map call_id (take MAX_TOOL_CALLS_PER_TURN cs) \<Longrightarrow> length rs' \<le> 3"
    for rs' :: "ToolResult list" and cs
    using length_map [of toolCallId rs'] by (simp add: MAX_TOOL_CALLS_PER_TURN_def)
  from turnRequests_shape [of h pc raw s] assms len show ?thesis
    by (elim disjE exE conjE) auto
qed

text \<open>
  C4. At most three action requests are executed in a turn. On the server,
  \<open>extractToolCalls\<close> returns the first three of the valid calls, and a response of the
  handler never carries more than three. On the client, a turn is the same whether or not
  the planning reply is cut to its first three requests, so what lies beyond them has no
  effect on any part of the state; every list of results the turn posts has at most three
  entries; and when the planning reply asks for actions, the turn posts the planning
  request and one final request, whose results answer exactly the first three requests,
  in order.
\<close>

theorem at_most_three_actions_per_turn:
  "length (extractToolCalls srv parts) \<le> 3 \<and>
   extractToolCalls srv parts = take 3 (collectCalls srv parts []) \<and>
   (\<forall>calls. toolCalls (snd (POST srv body)) = Some calls \<longrightarrow> length calls \<le> 3) \<and>
   runConversation h (capReplies postChat) raw s = runConversation h postChat raw s \<and>
   (\<forall>req \<in> set (turnRequests h postChat raw s).
      \<forall>rs. req_toolResults req = Some rs \<longrightarrow> length rs \<le> 3) \<and>
   (trim raw \<noteq> [] \<and> \<not> isBusy s \<and>
    postChat (planningRequest h raw s) = Inr reply \<and>
    awaitingToolResults reply \<and> toolCalls reply = Some cs \<and> cs \<noteq> [] \<longrightarrow>
      (\<exists>req2 rs. turnRequests h postChat raw s = [planningRequest h raw s, req2] \<and>
         req_toolResults req2 = Some rs \<and>
         map toolCallId rs = map call_id (take 3 cs)))"
proof -
  have a: "length (extractToolCalls srv parts) \<le> 3"
    by (rule extractToolCalls_length)
  have b: "extractToolCalls srv parts = take 3 (collectCalls srv parts [])"
    by (simp add: extractToolCalls_def MAX_TOOL_CALLS_PER_TURN_def)
  have c: "\<forall>calls. toolCalls (snd (POST srv body)) = Some calls \<longrightarrow> length calls \<le> 3"
    using POST_toolCalls by blast
  have d: "runConversation h (capReplies postChat) raw s = runConversation h postChat raw s"
    by (rule runConversation_cap)
  have e: "\<forall>req \<in> set (turnRequests h postChat raw s).
      \<forall>rs. req_toolResults req = Some rs \<longrightarrow> length rs \<le> 3"
    using turnRequests_results_bound by blast
  have f: "trim raw \<noteq> [] \<and> \<not> isBusy s \<and>
    postChat (planningRequest h raw s) = Inr reply \<and>
    awaitingToolResults reply \<and> toolCalls reply = Some cs \<and> cs \<noteq> [] \<longrightarrow>
      (\<exists>req2 rs. turnRequests h postChat raw s = [planningRequest h raw s, req2] \<and>
         req_toolResults req2 = Some rs \<and>
         map toolCallId rs = map call_id (take 3 cs))"
    using turn_executes [where raw = raw and s = s and pc = postChat and h = h and r = reply
        and cs = cs]
    by (simp add: MAX_TOOL_CALLS_PER_TURN_def)
  from a b c d e f show ?thesis by blast
qed

lemma fourServer_response:
  "map call_name (extractToolCalls fourServer fourParts) =
     [''scroll_by'', ''click_element'', ''fill_input''] \<and>
   toolCalls (snd (POST fourServer demoBody)) = Some (extractToolCalls fourServer fourParts)"
proof -
  have calls: "map call_name (extractToolCalls fourServer fourParts) =
     [''scroll_by'', ''click_element'', ''fill_input'']"
    by (simp add: extractToolCalls_def fourParts_def TOOL_NAMES_def MAX_TOOL_CALLS_PER_TURN_def
          numeral_eq_Suc)
  then have ne: "extractToolCalls fourServer fourParts \<noteq> []"
    by auto
  have snap: "isPageSnapshot (getProp demoBody ''pageSnapshot'')"
    by (simp add: isPageSnapshot_def asPageSnapshot_def getProp_def demoBody_def)
  have msg: "requestMessage demoBody = ''show projects''"
    by (simp add: requestMessage_def getProp_def demoBody_def trim_def isSpace_def)
  have tr: "toToolResults (getProp demoBody ''toolResults'') = []"
    by (simp add: toToolResults_def getProp_def demoBody_def)
  have key: "apiKey fourServer = Some ''key''"
    by (simp add: fourServer_def demoServer_def)
  have cg: "callGemini fourServer = (\<lambda>payload. Inr [Some fourParts])"
    by (simp add: fourServer_def)
  obtain snapshot where "asPageSnapshot (getProp demoBody ''pageSnapshot'') = Some snapshot"
    using snap by (auto simp: isPageSnapshot_def)
  then have "toolCalls (snd (POST fourServer demoBody)) = Some (extractToolCalls fourServer fourParts)"
    using ne snap
    by (simp add: POST_def geminiPayload_def msg tr key cg Let_def parseGeminiParts_def)
  with calls show ?thesis by simp
qed

theorem at_most_three_actions_per_turn_witness:
  "(\<exists>calls. toolCalls (snd (POST fourServer demoBody)) = Some calls \<and>
      map call_name calls = [''scroll_by'', ''click_element'', ''fill_input''] \<and>
      length calls \<le> 3) \<and>
   trim ''go to contact'' \<noteq> [] \<and> \<not> isBusy demoSession \<and>
   demoPostChat (planningRequest demoHost ''go to contact'' demoSession) = Inr planningReply \<and>
   awaitingToolResults planningReply \<and> toolCalls planningReply = Some fourCalls \<and>
   length fourCalls = 4 \<and>
   (\<exists>req2 rs. turnRequests demoHost demoPostChat ''go to contact'' demoSession =
        [planningRequest demoHost ''go to contact'' demoSession, req2] \<and>
      req2 \<in> set (turnRequests demoHost demoPostChat ''go to contact'' demoSession) \<and>
      req_toolResults req2 = Some rs \<and> length rs \<le> 3 \<and>
      map toolCallId rs = [''c1'', ''c2'', ''c3''])"
proof -
  have hyps: "trim ''go to contact'' \<noteq> [] \<and> \<not> isBusy demoSession \<and>
      demoPostChat (planningRequest demoHost ''go to contact'' demoSession) = Inr planningReply \<and>
      awaitingToolResults planningReply \<and> toolCalls planningReply = Some fourCalls \<and>
      fourCalls \<noteq> [] \<and> length fourCalls = 4"
    by (simp add: trim_def isSpace_def demoSession_def demoPostChat_def planningReply_def
          fourCalls_def planningRequest_def)
  have ids: "map call_id (take 3 fourCalls) = [''c1'', ''c2'', ''c3'']"
    by (simp add: fourCalls_def numeral_eq_Suc)
  from at_most_three_actions_per_turn
         [of fourServer fourParts demoBody demoHost demoPostChat "''go to contact''" demoSession
             planningReply fourCalls]
       hyps ids fourServer_response
  show ?thesis
    by (auto simp del: set_ConsD)
qed

subsection \<open>A failed planning call\<close>









subsection \<open>Ranked text search\<close>

lemma score_cases:
  "(score c target = \<infinity> \<longleftrightarrow> indexOf c target = None) \<and>
   (\<forall>i. indexOf c target = Some i \<longrightarrow> score c target = enat (i + length c))"
  by (simp add: score_def split: option.splits)

lemma set_ranked:
  "set (ranked doc target) =
     {(e, score (compositeText e) target) | e.
        e \<in> set (textCandidates doc) \<and> score (compositeText e) target \<noteq> \<infinity>}"
  by (auto simp: ranked_def)

lemma mem_ranked:
  "e \<in> set (textCandidates doc) \<Longrightarrow> indexOf (compositeText e) target = Some j \<Longrightarrow>
   (e, enat (j + length (compositeText e))) \<in> set (ranked doc target)"
  by (auto simp: ranked_def score_def)

lemma sorted_ranked: "sorted (map snd (ranked doc target))"
  by (simp add: ranked_def)

lemma ranked_head_least:
  assumes "ranked doc target = item # rest" "other \<in> set (ranked doc target)"
  shows "snd item \<le> snd other"
  using sorted_ranked [of doc target] assms by auto

lemma textCandidates_outside:
  "e \<in> set (textCandidates doc) \<Longrightarrow>
     \<not> isInsideChatUi doc e \<and> selTextCandidates (snd e) \<and> e \<in> set (elementsOf doc)"
  by (simp add: textCandidates_def querySelectorAll_def)

lemma findByText_Some:
  assumes "findByText doc hint = Some e"
  shows "normalizeStr hint \<noteq> [] \<and>
         (\<exists>rest. ranked doc (normalizeStr hint) = (e, score (compositeText e) (normalizeStr hint)) # rest)"
proof -
  from assms have ne: "normalizeStr hint \<noteq> []"
    by (auto simp: findByText_def Let_def split: if_splits)
  from assms ne obtain item rest where r: "ranked doc (normalizeStr hint) = item # rest" "fst item = e"
    by (auto simp: findByText_def Let_def split: list.splits)
  then have "item \<in> set (ranked doc (normalizeStr hint))"
    by simp
  then have "item = (e, score (compositeText e) (normalizeStr hint))"
    using r(2) by (auto simp: set_ranked)
  with r ne show ?thesis by simp
qed

lemma findByText_outside:
  assumes "findByText doc hint = Some e"
  shows "\<not> isInsideChatUi doc e \<and> selTextCandidates (snd e) \<and> e \<in> set (elementsOf doc)"
proof -
  from findByText_Some [OF assms] obtain rest where
    "ranked doc (normalizeStr hint) = (e, score (compositeText e) (normalizeStr hint)) # rest"
    by blast
  then have "(e, score (compositeText e) (normalizeStr hint)) \<in> set (ranked doc (normalizeStr hint))"
    by simp
  then have "e \<in> set (textCandidates doc)"
    by (auto simp: set_ranked)
  then show ?thesis by (rule textCandidates_outside)
qed

lemma findByText_None:
  assumes "normalizeStr hint \<noteq> []"
  shows "findByText doc hint = None \<longleftrightarrow>
         (\<forall>e \<in> set (textCandidates doc). indexOf (compositeText e) (normalizeStr hint) = None)"
proof -
  have "findByText doc hint = None \<longleftrightarrow> set (ranked doc (normalizeStr hint)) = {}"
    using assms by (simp add: findByText_def Let_def split: list.splits)
  also have "\<dots> \<longleftrightarrow> (\<forall>e \<in> set (textCandidates doc). score (compositeText e) (normalizeStr hint) = \<infinity>)"
    by (auto simp: set_ranked)
  finally show ?thesis
    by (simp add: score_cases)
qed

lemma findByText_least:
  assumes "findByText doc hint = Some e"
  shows "\<exists>i. indexOf (compositeText e) (normalizeStr hint) = Some i \<and>
           (\<forall>e' \<in> set (textCandidates doc). \<forall>j.
              indexOf (compositeText e') (normalizeStr hint) = Some j \<longrightarrow>
              i + length (compositeText e) \<le> j + length (compositeText e'))"
proof -
  let ?t = "normalizeStr hint"
  from findByText_Some [OF assms] obtain rest where
    r: "ranked doc ?t = (e, score (compositeText e) ?t) # rest"
    by blast
  then have "(e, score (compositeText e) ?t) \<in> set (ranked doc ?t)"
    by simp
  then have fin: "score (compositeText e) ?t \<noteq> \<infinity>"
    by (auto simp: set_ranked)
  then obtain i where i: "indexOf (compositeText e) ?t = Some i"
    by (auto simp: score_def split: option.splits)
  have "i + length (compositeText e) \<le> j + length (compositeText e')"
    if "e' \<in> set (textCandidates doc)" "indexOf (compositeText e') ?t = Some j" for e' j
  proof -
    have "(e', enat (j + length (compositeText e'))) \<in> set (ranked doc ?t)"
      using that by (rule mem_ranked)
    from ranked_head_least [OF r this]
    show ?thesis
      using i by (simp add: score_def)
  qed
  with i show ?thesis by blast
qed

text \<open>
  C2. For a hint that is not empty after normalisation, the search looks only at the
  fixed candidate set with every element inside the chat interface removed; a candidate
  whose composite string contains the normalised hint is scored by the index of the
  first occurrence plus the composite's length, a candidate without an occurrence is
  left out, and the result is a candidate of the lowest score, or nothing when no
  candidate contains the hint. For any hint at all, a result is a candidate outside
  the chat interface.
\<close>

theorem ranked_text_search:
  "textCandidates doc =
     filter (\<lambda>e. \<not> isInsideChatUi doc e) (filter (\<lambda>e. selTextCandidates (snd e)) (elementsOf doc)) \<and>
   (normalizeStr hint \<noteq> [] \<longrightarrow>
      (findByText doc hint = None \<longleftrightarrow>
         (\<forall>e \<in> set (textCandidates doc). indexOf (compositeText e) (normalizeStr hint) = None)) \<and>
      (\<forall>e. findByText doc hint = Some e \<longrightarrow>
         e \<in> set (textCandidates doc) \<and>
         (\<exists>i. indexOf (compositeText e) (normalizeStr hint) = Some i \<and>
            (\<forall>e' \<in> set (textCandidates doc). \<forall>j.
               indexOf (compositeText e') (normalizeStr hint) = Some j \<longrightarrow>
               i + length (compositeText e) \<le> j + length (compositeText e'))))) \<and>
   (\<forall>e. findByText doc hint = Some e \<longrightarrow>
      \<not> isInsideChatUi doc e \<and> selTextCandidates (snd e) \<and> e \<in> set (elementsOf doc))"
proof -
  have a: "textCandidates doc =
     filter (\<lambda>e. \<not> isInsideChatUi doc e) (filter (\<lambda>e. selTextCandidates (snd e)) (elementsOf doc))"
    by (simp add: textCandidates_def querySelectorAll_def)
  have b: "findByText doc hint = Some e \<Longrightarrow> e \<in> set (textCandidates doc)" for e
    using findByText_outside [of doc hint e] by (simp add: textCandidates_def querySelectorAll_def)
  have c: "\<forall>e. findByText doc hint = Some e \<longrightarrow>
      \<not> isInsideChatUi doc e \<and> selTextCandidates (snd e) \<and> e \<in> set (elementsOf doc)"
    using findByText_outside by blast
  have d: "normalizeStr hint \<noteq> [] \<longrightarrow>
      (findByText doc hint = None \<longleftrightarrow>
         (\<forall>e \<in> set (textCandidates doc). indexOf (compositeText e) (normalizeStr hint) = None))"
    using findByText_None by blast
  have e: "\<forall>e. findByText doc hint = Some e \<longrightarrow>
         e \<in> set (textCandidates doc) \<and>
         (\<exists>i. indexOf (compositeText e) (normalizeStr hint) = Some i \<and>
            (\<forall>e' \<in> set (textCandidates doc). \<forall>j.
               indexOf (compositeText e') (normalizeStr hint) = Some j \<longrightarrow>
               i + length (compositeText e) \<le> j + length (compositeText e')))"
    using b findByText_least by blast
  from a c d e show ?thesis by blast
qed

lemma demo_search:
  "normalizeStr ''Contact'' \<noteq> [] \<and>
   map_option fst (findByText demoPage ''Contact'') = Some [1] \<and>
   map fst (filter (\<lambda>e. isInsideChatUi demoPage e \<and> selTextCandidates (snd e) \<and>
                         strIncludes (compositeText e) (normalizeStr ''Contact''))
              (elementsOf demoPage)) = [[2, 1]]"
  by code_simp

theorem ranked_text_search_witness:
  "normalizeStr ''Contact'' \<noteq> [] \<and>
   (\<exists>e \<in> set (textCandidates demoPage).
      findByText demoPage ''Contact'' = Some e \<and> fst e = [1] \<and> \<not> isInsideChatUi demoPage e \<and>
      (\<exists>i. indexOf (compositeText e) (normalizeStr ''Contact'') = Some i)) \<and>
   map fst (filter (\<lambda>e. isInsideChatUi demoPage e \<and> selTextCandidates (snd e) \<and>
                         strIncludes (compositeText e) (normalizeStr ''Contact''))
              (elementsOf demoPage)) = [[2, 1]]"
proof -
  from demo_search obtain e where e: "findByText demoPage ''Contact'' = Some e" "fst e = [1]"
    by (cases "findByText demoPage ''Contact''") auto
  from ranked_text_search [of demoPage "''Contact''"] demo_search e
  show ?thesis by auto
qed

subsection \<open>Section aliases\<close>

lemma resolveAliases_first:
  "resolveAliases doc nh table =
     firstOf (List.map_filter (\<lambda>entry. getElementById doc (fst entry))
                (filter (aliasMatch nh) table))"
  by (induction table) (auto simp: firstOf_def List.map_filter_def split: option.splits)

lemma resolveSectionFromHint_alias:
  assumes "stripHash (normalizeStr hint) \<noteq> []"
    and "getElementById doc (stripHash (normalizeStr hint)) = None"
    and "List.map_filter (\<lambda>entry. getElementById doc (fst entry))
           (filter (aliasMatch (stripHash (normalizeStr hint))) SECTION_ALIASES) = e # others"
  shows "resolveSectionFromHint doc hint = Some e"
  using assms by (simp add: resolveSectionFromHint_def Let_def resolveAliases_first firstOf_def)

lemma synonyms_own_section:
  "\<forall>entry \<in> set SECTION_ALIASES. \<forall>alias \<in> set (snd entry).
     stripHash (normalizeStr alias) = alias \<and> alias \<noteq> [] \<and>
     filter (aliasMatch alias) SECTION_ALIASES = [entry]"
  by code_simp

lemma resolveSectionFromHint_synonym:
  assumes "entry \<in> set SECTION_ALIASES" "alias \<in> set (snd entry)"
    and "getElementById doc alias = None" "getElementById doc (fst entry) = Some e"
  shows "resolveSectionFromHint doc alias = Some e"
proof -
  from synonyms_own_section assms(1,2)
  have n: "stripHash (normalizeStr alias) = alias" "alias \<noteq> []"
    and f: "filter (aliasMatch alias) SECTION_ALIASES = [entry]"
    by blast+
  show ?thesis
    by (rule resolveSectionFromHint_alias [where others = "[]"])
       (simp_all add: n f assms(3,4) List.map_filter_def)
qed

text \<open>
  The claim C3 as it is stated fails: the source tests whether the hint contains an
  alias, not whether an alias contains the hint. The hint \<open>port\<close> is contained in the
  alias \<open>portfolio\<close> of the canonical section \<open>projects\<close>, no element has the identifier
  \<open>port\<close>, the section \<open>projects\<close> is in the page, and resolution finds nothing.
\<close>

theorem alias_substring_counterexample:
  "stripHash (normalizeStr ''port'') = ''port'' \<and>
   getElementById demoPage ''port'' = None \<and>
   (''projects'', [''projects'', ''portfolio'', ''work'', ''case studies'', ''case-study''])
     \<in> set SECTION_ALIASES \<and>
   strIncludes ''portfolio'' ''port'' \<and>
   map_option fst (getElementById demoPage ''projects'') = Some [0] \<and>
   resolveSectionFromHint demoPage ''port'' = None"
  by code_simp

text \<open>
  C3, amended. For a hint whose normalised form (lower case, whitespace collapsed,
  leading \<open>#\<close> stripped) is not empty and is not the identifier of an element: the
  canonical sections that have an alias contained in the normalised hint are tried in
  the order of the table, and the first whose element exists is returned. In
  particular a hint equal to a recognised synonym, which is not itself an identifier in
  the page, resolves to the element of the synonym's canonical section whenever that
  element exists.
\<close>

theorem section_alias_resolution:
  "(stripHash (normalizeStr hint) \<noteq> [] \<and>
    getElementById doc (stripHash (normalizeStr hint)) = None \<and>
    List.map_filter (\<lambda>entry. getElementById doc (fst entry))
      (filter (\<lambda>entry. list_ex (\<lambda>alias. strIncludes (stripHash (normalizeStr hint)) alias) (snd entry))
         SECTION_ALIASES) = e # others \<longrightarrow>
      resolveSectionFromHint doc hint = Some e) \<and>
   (\<forall>entry \<in> set SECTION_ALIASES. \<forall>alias \<in> set (snd entry).
      getElementById doc alias = None \<and> getElementById doc (fst entry) = Some e' \<longrightarrow>
      resolveSectionFromHint doc alias = Some e')"
proof -
  have am: "aliasMatch nh = (\<lambda>entry. list_ex (\<lambda>alias. strIncludes nh alias) (snd entry))" for nh
    by (rule ext) (simp add: aliasMatch_def)
  have a: "stripHash (normalizeStr hint) \<noteq> [] \<and>
    getElementById doc (stripHash (normalizeStr hint)) = None \<and>
    List.map_filter (\<lambda>entry. getElementById doc (fst entry))
      (filter (\<lambda>entry. list_ex (\<lambda>alias. strIncludes (stripHash (normalizeStr hint)) alias) (snd entry))
         SECTION_ALIASES) = e # others \<longrightarrow>
      resolveSectionFromHint doc hint = Some e"
    using resolveSectionFromHint_alias [of hint doc e others] by (simp add: am)
  have b: "\<forall>entry \<in> set SECTION_ALIASES. \<forall>alias \<in> set (snd entry).
      getElementById doc alias = None \<and> getElementById doc (fst entry) = Some e' \<longrightarrow>
      resolveSectionFromHint doc alias = Some e'"
    using resolveSectionFromHint_synonym by blast
  from a b show ?thesis by blast
qed

lemma demo_alias_facts:
  "stripHash (normalizeStr ''Show me your  Portfolio'') = ''show me your portfolio'' \<and>
   getElementById demoPage ''show me your portfolio'' = None \<and>
   map fst (List.map_filter (\<lambda>entry. getElementById demoPage (fst entry))
      (filter (\<lambda>entry. list_ex (\<lambda>alias. strIncludes ''show me your portfolio'' alias) (snd entry))
         SECTION_ALIASES)) = [[0]] \<and>
   (''contact'', [''contact'', ''hire'', ''email'', ''reach'', ''message'']) \<in> set SECTION_ALIASES \<and>
   getElementById demoPage ''hire'' = None \<and>
   map_option fst (getElementById demoPage ''contact'') = Some [1]"
  by code_simp

theorem section_alias_resolution_witness:
  "stripHash (normalizeStr ''Show me your  Portfolio'') \<noteq> [] \<and>
   getElementById demoPage (stripHash (normalizeStr ''Show me your  Portfolio'')) = None \<and>
   map_option fst (resolveSectionFromHint demoPage ''Show me your  Portfolio'') = Some [0] \<and>
   (''contact'', [''contact'', ''hire'', ''email'', ''reach'', ''message'']) \<in> set SECTION_ALIASES \<and>
   getElementById demoPage ''hire'' = None \<and>
   map_option fst (resolveSectionFromHint demoPage ''hire'') = Some [1]"
proof -
  obtain e others where e:
    "List.map_filter (\<lambda>entry. getElementById demoPage (fst entry))
      (filter (\<lambda>entry. list_ex (\<lambda>alias. strIncludes ''show me your portfolio'' alias) (snd entry))
         SECTION_ALIASES) = e # others" "fst e = [0]"
    using demo_alias_facts
    by (cases "List.map_filter (\<lambda>entry. getElementById demoPage (fst entry))
      (filter (\<lambda>entry. list_ex (\<lambda>alias. strIncludes ''show me your portfolio'' alias) (snd entry))
         SECTION_ALIASES)") auto
  obtain c where c: "getElementById demoPage ''contact'' = Some c" "fst c = [1]"
    using demo_alias_facts by (cases "getElementById demoPage ''contact''") auto
  note inst = section_alias_resolution [of "''Show me your  Portfolio''" demoPage e others c]
  have r1: "resolveSectionFromHint demoPage ''Show me your  Portfolio'' = Some e"
    using inst demo_alias_facts e by simp
  from inst have "\<forall>entry \<in> set SECTION_ALIASES. \<forall>alias \<in> set (snd entry).
      getElementById demoPage alias = None \<and> getElementById demoPage (fst entry) = Some c \<longrightarrow>
      resolveSectionFromHint demoPage alias = Some c"
    by blast
  from this [rule_format,
      of "(''contact'', [''contact'', ''hire'', ''email'', ''reach'', ''message''])" "''hire''"]
  have r2: "resolveSectionFromHint demoPage ''hire'' = Some c"
    using demo_alias_facts c by simp
  from r1 r2 e c demo_alias_facts show ?thesis by simp
qed

subsection \<open>Normalisation of strings\<close>

lemma lowerChar_cases:
  "lowerChar c = c \<or>
   (c, lowerChar c) \<in> set (zip ''ABCDEFGHIJKLMNOPQRSTUVWXYZ'' ''abcdefghijklmnopqrstuvwxyz'')"
proof (cases "map_of (zip ''ABCDEFGHIJKLMNOPQRSTUVWXYZ'' ''abcdefghijklmnopqrstuvwxyz'') c")
  case None
  then have "lowerChar c = c"
    by (simp only: lowerChar_def option.case)
  then show ?thesis ..
next
  case (Some d)
  then have "(c, d) \<in> set (zip ''ABCDEFGHIJKLMNOPQRSTUVWXYZ'' ''abcdefghijklmnopqrstuvwxyz'')"
    by (rule map_of_SomeD)
  moreover from Some have "lowerChar c = d"
    by (simp only: lowerChar_def option.case)
  ultimately show ?thesis
    by blast
qed

lemma lowerChar_fixed:
  "\<forall>p \<in> set (zip ''ABCDEFGHIJKLMNOPQRSTUVWXYZ'' ''abcdefghijklmnopqrstuvwxyz'').
     lowerChar (snd p) = snd p \<and> \<not> isSpace (fst p) \<and> \<not> isSpace (snd p)"
  by code_simp

lemma lowerChar_idem [simp]: "lowerChar (lowerChar c) = lowerChar c"
  using lowerChar_cases [of c] lowerChar_fixed by fastforce

lemma isSpace_lowerChar [simp]: "isSpace (lowerChar c) = isSpace c"
  using lowerChar_cases [of c] lowerChar_fixed by fastforce

lemma isSpace_blank [simp]: "isSpace (CHR '' '')"
  by (simp add: isSpace_def)

lemma lowerChar_blank [simp]: "lowerChar (CHR '' '') = CHR '' ''"
  by (simp add: lowerChar_def)

lemma lower_collapseFrom: "map lowerChar (collapseFrom f s) = collapseFrom f (map lowerChar s)"
  by (induction s arbitrary: f) simp_all

lemma lower_dropWhile: "map lowerChar (dropWhile isSpace s) = dropWhile isSpace (map lowerChar s)"
  by (induction s) simp_all

lemma lower_trim: "map lowerChar (trim s) = trim (map lowerChar s)"
  by (simp add: trim_def rev_map [symmetric] lower_dropWhile)

lemma tidy_collapseFrom: "tidy f (collapseFrom f s)"
  by (induction s arbitrary: f) simp_all

lemma tidy_weaken: "tidy f s \<Longrightarrow> tidy False s"
  by (cases s) (auto split: if_splits)

lemma tidy_suffix: "tidy f (a @ b) \<Longrightarrow> tidy False b"
  by (induction a arbitrary: f) (auto split: if_splits intro: tidy_weaken)

lemma tidy_prefix: "tidy f (a @ b) \<Longrightarrow> tidy f a"
  by (induction a arbitrary: f) (auto split: if_splits)

lemma collapseFrom_tidy: "tidy f s \<Longrightarrow> collapseFrom f s = s"
  by (induction s arbitrary: f) (auto split: if_splits)

lemma trim_decompose: "\<exists>a b. s = a @ trim s @ b"
proof -
  have "dropWhile isSpace s = rev (dropWhile isSpace (rev (dropWhile isSpace s))) @
          rev (takeWhile isSpace (rev (dropWhile isSpace s)))"
    by (metis rev_append rev_rev_ident takeWhile_dropWhile_id)
  moreover have "s = takeWhile isSpace s @ dropWhile isSpace s"
    by simp
  ultimately show ?thesis
    unfolding trim_def by metis
qed

lemma tidy_trim: "tidy f s \<Longrightarrow> tidy False (trim s)"
proof -
  assume t: "tidy f s"
  obtain a b where "s = a @ trim s @ b"
    using trim_decompose by blast
  with t have "tidy f (a @ (trim s @ b))"
    by simp
  then have "tidy False (trim s @ b)"
    by (rule tidy_suffix)
  then show ?thesis
    by (rule tidy_prefix)
qed

lemma dropWhile_id: "s = [] \<or> \<not> P (hd s) \<Longrightarrow> dropWhile P s = s"
  by (cases s) auto

lemma trim_ends:
  "(trim s = [] \<or> \<not> isSpace (hd (trim s))) \<and> (trim s = [] \<or> \<not> isSpace (last (trim s)))"
proof -
  let ?z = "dropWhile isSpace s"
  let ?r = "dropWhile isSpace (rev ?z)"
  have r: "?r = [] \<or> \<not> isSpace (hd ?r)"
    using hd_dropWhile [of isSpace "rev ?z"] by blast
  have z: "?z = [] \<or> \<not> isSpace (hd ?z)"
    using hd_dropWhile [of isSpace s] by blast
  have t: "trim s = rev ?r"
    by (simp add: trim_def)
  have last: "trim s = [] \<or> \<not> isSpace (last (trim s))"
    using r by (auto simp: t last_rev)
  have "?z = rev ?r @ rev (takeWhile isSpace (rev ?z))"
    by (metis rev_append rev_rev_ident takeWhile_dropWhile_id)
  then have "trim s \<noteq> [] \<Longrightarrow> hd (trim s) = hd ?z \<and> ?z \<noteq> []"
    unfolding t by (metis hd_append2 append_is_Nil_conv)
  with z have "trim s = [] \<or> \<not> isSpace (hd (trim s))"
    by auto
  with last show ?thesis by blast
qed

lemma trim_idem: "trim (trim s) = trim s"
proof -
  let ?y = "trim s"
  from trim_ends [of s] have h: "?y = [] \<or> \<not> isSpace (hd ?y)"
    and l: "?y = [] \<or> \<not> isSpace (last ?y)"
    by blast+
  have a: "dropWhile isSpace ?y = ?y"
    using h by (rule dropWhile_id)
  have "rev ?y = [] \<or> \<not> isSpace (hd (rev ?y))"
    using l by (auto simp: hd_rev)
  then have b: "dropWhile isSpace (rev ?y) = rev ?y"
    by (rule dropWhile_id)
  show ?thesis
    unfolding trim_def [of "trim s"] a b by simp
qed

lemma normalizeStr_idem: "normalizeStr (normalizeStr v) = normalizeStr v"
proof -
  let ?y = "trim (collapseFrom False (map lowerChar v))"
  have low: "map lowerChar ?y = ?y"
    by (simp add: lower_trim lower_collapseFrom comp_def)
  have "tidy False ?y"
    using tidy_collapseFrom by (rule tidy_trim)
  then have col: "collapseFrom False ?y = ?y"
    by (rule collapseFrom_tidy)
  show ?thesis
    by (simp only: normalizeStr_def collapseWhitespace_def toLowerCase_def low col trim_idem)
qed

lemma strIncludes_iff: "strIncludes s t \<longleftrightarrow> (\<exists>a b. s = a @ t @ b)"
proof (induction s)
  case Nil
  then show ?case by (simp add: strIncludes_def)
next
  case (Cons c cs)
  have "strIncludes (c # cs) t \<longleftrightarrow> prefix t (c # cs) \<or> strIncludes cs t"
    by (simp add: strIncludes_def)
  also have "\<dots> \<longleftrightarrow> (\<exists>a b. c # cs = a @ t @ b)"
  proof
    assume "prefix t (c # cs) \<or> strIncludes cs t"
    then show "\<exists>a b. c # cs = a @ t @ b"
    proof
      assume "prefix t (c # cs)"
      then obtain b where "c # cs = t @ b"
        by (auto simp: prefix_def)
      then have "c # cs = [] @ t @ b" by simp
      then show ?thesis by blast
    next
      assume "strIncludes cs t"
      then obtain a b where "cs = a @ t @ b"
        using Cons.IH by blast
      then have "c # cs = (c # a) @ t @ b" by simp
      then show ?thesis by blast
    qed
  next
    assume "\<exists>a b. c # cs = a @ t @ b"
    then obtain a b where ab: "c # cs = a @ t @ b" by blast
    show "prefix t (c # cs) \<or> strIncludes cs t"
    proof (cases a)
      case Nil
      with ab show ?thesis by (auto simp: prefix_def)
    next
      case (Cons x a')
      with ab have "cs = a' @ t @ b" by simp
      then show ?thesis using Cons.IH by blast
    qed
  qed
  finally show ?case .
qed

lemma dropWhile_keeps:
  "\<not> P c \<Longrightarrow> \<exists>a'. dropWhile P (a @ (c # w) @ b) = a' @ (c # w) @ b"
proof (induction a)
  case Nil
  then have "dropWhile P ([] @ (c # w) @ b) = [] @ (c # w) @ b" by simp
  then show ?case by blast
next
  case (Cons x a)
  then obtain a' where a': "dropWhile P (a @ (c # w) @ b) = a' @ (c # w) @ b"
    by blast
  show ?case
  proof (cases "P x")
    case True
    with a' show ?thesis by auto
  next
    case False
    then have "dropWhile P ((x # a) @ (c # w) @ b) = (x # a) @ (c # w) @ b" by simp
    then show ?thesis by blast
  qed
qed

lemma trim_keeps:
  assumes "w \<noteq> []" "\<not> isSpace (hd w)" "\<not> isSpace (last w)"
  shows "\<exists>a' b'. trim (a @ w @ b) = a' @ w @ b'"
proof -
  obtain c w' where w: "w = c # w'" "\<not> isSpace c"
    using assms(1,2) by (cases w) auto
  obtain a' where a': "dropWhile isSpace (a @ w @ b) = a' @ w @ b"
    using dropWhile_keeps [of isSpace c a w' b] w by auto
  obtain d v where rw: "rev w = d # v" "\<not> isSpace d"
    using assms(1,3) by (cases "rev w") (auto simp: last_rev [symmetric] hd_rev)
  obtain b' where "dropWhile isSpace (rev b @ (d # v) @ rev a') = b' @ (d # v) @ rev a'"
    using dropWhile_keeps [of isSpace d "rev b" v "rev a'"] rw(2) by auto
  then have "dropWhile isSpace (rev (a' @ w @ b)) = b' @ rev w @ rev a'"
    using rw(1) by simp
  then have "trim (a @ w @ b) = a' @ w @ rev b'"
    by (simp add: trim_def a')
  then show ?thesis by blast
qed

lemma collapseFrom_split:
  "\<not> isSpace c \<Longrightarrow> collapseFrom f (a @ c # rest) = collapseFrom f a @ collapseFrom False (c # rest)"
  by (induction a arbitrary: f) simp_all

lemma collapseFrom_tidy_prefix:
  "tidy f w \<Longrightarrow> w \<noteq> [] \<Longrightarrow> \<not> isSpace (last w) \<Longrightarrow>
   collapseFrom f (w @ b) = w @ collapseFrom False b"
proof (induction w arbitrary: f)
  case Nil
  then show ?case by simp
next
  case (Cons c w)
  show ?case
  proof (cases "w = []")
    case True
    with Cons.prems show ?thesis by simp
  next
    case False
    with Cons.prems have l: "\<not> isSpace (last w)" by simp
    show ?thesis
    proof (cases "isSpace c")
      case True
      with Cons.prems have "c = CHR '' ''" "\<not> f" "tidy True w" by auto
      with Cons.IH [OF _ False l, of True] True show ?thesis by simp
    next
      case False
      with Cons.prems have "tidy False w" by simp
      with Cons.IH [OF _ \<open>w \<noteq> []\<close> l, of False] False show ?thesis by simp
    qed
  qed
qed

lemma normalizeStr_keeps:
  assumes "strIncludes s w" "map lowerChar w = w" "tidy False w" "w \<noteq> []"
    "\<not> isSpace (hd w)" "\<not> isSpace (last w)"
  shows "strIncludes (normalizeStr s) w"
proof -
  obtain a b where s: "s = a @ w @ b"
    using assms(1) by (auto simp: strIncludes_iff)
  obtain c w' where w: "w = c # w'" "\<not> isSpace c"
    using assms(4,5) by (cases w) auto
  have "collapseFrom False (map lowerChar s) =
          collapseFrom False (map lowerChar a @ c # (w' @ map lowerChar b))"
    using s w assms(2) by simp
  also have "\<dots> = collapseFrom False (map lowerChar a) @ collapseFrom False (w @ map lowerChar b)"
    using collapseFrom_split [OF w(2)] w(1) by simp
  also have "\<dots> = collapseFrom False (map lowerChar a) @ w @ collapseFrom False (map lowerChar b)"
    using collapseFrom_tidy_prefix [OF assms(3,4,6)] by simp
  finally have "\<exists>a' b'. normalizeStr s = a' @ w @ b'"
    using trim_keeps [OF assms(4,5,6)]
    by (simp add: normalizeStr_def collapseWhitespace_def toLowerCase_def)
  then show ?thesis
    by (simp add: strIncludes_iff)
qed

lemma ordinal_words_kept:
  "\<forall>w \<in> set [''most recent'', ''latest'', ''newest'', ''second''].
     map lowerChar w = w \<and> tidy False w \<and> w \<noteq> [] \<and> \<not> isSpace (hd w) \<and> \<not> isSpace (last w)"
  by code_simp

lemma raw_hint_words:
  assumes "w \<in> set [''most recent'', ''latest'', ''newest'', ''second'']" "strIncludes hint w"
  shows "strIncludes (normalizeStr hint) w"
  using normalizeStr_keeps [OF assms(2)] ordinal_words_kept assms(1) by blast

subsection \<open>Project cards\<close>

lemma parseOrdinal_second:
  assumes "\<not> strIncludes (normalizeStr hint) ''first''" "strIncludes (normalizeStr hint) ''second''"
  shows "parseOrdinal (normalizeStr hint) = Some 2"
  using assms by (simp add: parseOrdinal_def normalizeStr_idem ORDINAL_TO_INDEX_def)

lemma card_superlative:
  assumes "querySelectorAll selProjectCard doc = firstCard # others"
    and "isSuperlative (normalizeStr hint)"
  shows "findProjectCardByHint h doc hint =
           Some (case find (\<lambda>c. getAttribute (snd c) ''data-project-order'' = Some ''1'')
                        (firstCard # others) of
                   Some latest \<Rightarrow> latest
                 | None \<Rightarrow> firstCard)"
  using assms by (simp add: findProjectCardByHint_def Let_def split: option.splits)

lemma card_second:
  assumes "querySelectorAll selProjectCard doc = firstCard # secondCard # others"
    and "\<not> isSuperlative (normalizeStr hint)"
    and "\<not> strIncludes (normalizeStr hint) ''first''"
    and "strIncludes (normalizeStr hint) ''second''"
  shows "findProjectCardByHint h doc hint =
           Some (case find (\<lambda>c. orderNumber h c = Finite 2) (firstCard # secondCard # others) of
                   Some byOrder \<Rightarrow> byOrder
                 | None \<Rightarrow> secondCard)"
  using assms(1,2) parseOrdinal_second [OF assms(3,4)]
  by (simp add: findProjectCardByHint_def Let_def split: option.splits)

text \<open>
  The claim C1 as it is stated fails. On the page with two cards, the card of order 2
  first in the document: the hint \<open>2nd project\<close> carries the literal \<open>2nd\<close>, whose digit is
  followed by a letter, so that \<open>/\b(\d+)\b/\<close> does not match it; no ordinal is parsed, no
  title contains the hint, and no card is returned. The hint \<open>second after the first\<close>
  carries the word \<open>second\<close> and resolves to the card of order 1, because \<open>first\<close> comes
  earlier in the table of ordinal words.
\<close>

theorem ordinal_two_counterexample:
  "map fst (querySelectorAll selProjectCard demoPage) = [[0, 1], [0, 2]] \<and>
   map fst (filter (\<lambda>c. orderNumber demoHost c = Finite 2)
              (querySelectorAll selProjectCard demoPage)) = [[0, 1]] \<and>
   strIncludes ''2nd project'' ''2nd'' \<and>
   parseOrdinal ''2nd project'' = None \<and>
   findProjectCardByHint demoHost demoPage ''2nd project'' = None \<and>
   strIncludes ''second after the first'' ''second'' \<and>
   map_option fst (findProjectCardByHint demoHost demoPage ''second after the first'') =
     Some [0, 2]"
  by code_simp

text \<open>
  C1, amended. When project cards exist, a hint that contains \<open>most recent\<close>, \<open>latest\<close> or
  \<open>newest\<close> (as it is, or after normalisation) resolves to the first card whose order
  attribute is the string \<open>1\<close>, and to the first card in document order when there is
  none. When at least two cards exist, a hint whose normalised form contains none of the
  three superlatives and not the word \<open>first\<close>, and that contains the word \<open>second\<close>,
  resolves to the first card whose order attribute converts to the number 2, and to the
  second card in document order when there is none, whatever the document order of the
  cards.
\<close>

theorem project_card_resolution:
  "(querySelectorAll selProjectCard doc = firstCard # others \<and>
    (strIncludes hint ''most recent'' \<or> strIncludes hint ''latest'' \<or>
     strIncludes hint ''newest'' \<or> isSuperlative (normalizeStr hint)) \<longrightarrow>
      findProjectCardByHint h doc hint =
        Some (case find (\<lambda>c. getAttribute (snd c) ''data-project-order'' = Some ''1'')
                     (firstCard # others) of
                Some latest \<Rightarrow> latest
              | None \<Rightarrow> firstCard)) \<and>
   (querySelectorAll selProjectCard doc = firstCard # secondCard # rest \<and>
    \<not> isSuperlative (normalizeStr hint) \<and>
    \<not> strIncludes (normalizeStr hint) ''first'' \<and>
    (strIncludes hint ''second'' \<or> strIncludes (normalizeStr hint) ''second'') \<longrightarrow>
      findProjectCardByHint h doc hint =
        Some (case find (\<lambda>c. orderNumber h c = Finite 2) (firstCard # secondCard # rest) of
                Some byOrder \<Rightarrow> byOrder
              | None \<Rightarrow> secondCard))"
proof -
  have sup: "isSuperlative (normalizeStr hint)"
    if "strIncludes hint ''most recent'' \<or> strIncludes hint ''latest'' \<or>
        strIncludes hint ''newest'' \<or> isSuperlative (normalizeStr hint)"
    using that raw_hint_words [of "''most recent''" hint] raw_hint_words [of "''latest''" hint]
      raw_hint_words [of "''newest''" hint]
    by (auto simp: isSuperlative_def)
  have sec: "strIncludes (normalizeStr hint) ''second''"
    if "strIncludes hint ''second'' \<or> strIncludes (normalizeStr hint) ''second''"
    using that raw_hint_words [of "''second''" hint] by auto
  have a: "querySelectorAll selProjectCard doc = firstCard # others \<and>
    (strIncludes hint ''most recent'' \<or> strIncludes hint ''latest'' \<or>
     strIncludes hint ''newest'' \<or> isSuperlative (normalizeStr hint)) \<longrightarrow>
      findProjectCardByHint h doc hint =
        Some (case find (\<lambda>c. getAttribute (snd c) ''data-project-order'' = Some ''1'')
                     (firstCard # others) of
                Some latest \<Rightarrow> latest
              | None \<Rightarrow> firstCard)"
    using card_superlative sup by blast
  have b: "querySelectorAll selProjectCard doc = firstCard # secondCard # rest \<and>
    \<not> isSuperlative (normalizeStr hint) \<and>
    \<not> strIncludes (normalizeStr hint) ''first'' \<and>
    (strIncludes hint ''second'' \<or> strIncludes (normalizeStr hint) ''second'') \<longrightarrow>
      findProjectCardByHint h doc hint =
        Some (case find (\<lambda>c. orderNumber h c = Finite 2) (firstCard # secondCard # rest) of
                Some byOrder \<Rightarrow> byOrder
              | None \<Rightarrow> secondCard)"
    using card_second sec by blast
  from a b show ?thesis by blast
qed

lemma demo_cards:
  "map fst (querySelectorAll selProjectCard demoPage) = [[0, 1], [0, 2]] \<and>
   map (\<lambda>c. getAttribute (snd c) ''data-project-order'') (querySelectorAll selProjectCard demoPage) =
     [Some ''2'', Some ''1''] \<and>
   map (orderNumber demoHost) (querySelectorAll selProjectCard demoPage) = [Finite 2, Finite 1] \<and>
   strIncludes ''Highlight the latest one'' ''latest'' \<and>
   \<not> isSuperlative (normalizeStr ''Highlight the second project card.'') \<and>
   \<not> strIncludes (normalizeStr ''Highlight the second project card.'') ''first'' \<and>
   strIncludes ''Highlight the second project card.'' ''second''"
  by code_simp

theorem project_card_resolution_witness:
  "map fst (querySelectorAll selProjectCard demoPage) = [[0, 1], [0, 2]] \<and>
   map (orderNumber demoHost) (querySelectorAll selProjectCard demoPage) = [Finite 2, Finite 1] \<and>
   strIncludes ''Highlight the latest one'' ''latest'' \<and>
   map_option fst (findProjectCardByHint demoHost demoPage ''Highlight the latest one'') =
     Some [0, 2] \<and>
   \<not> isSuperlative (normalizeStr ''Highlight the second project card.'') \<and>
   \<not> strIncludes (normalizeStr ''Highlight the second project card.'') ''first'' \<and>
   strIncludes ''Highlight the second project card.'' ''second'' \<and>
   map_option fst (findProjectCardByHint demoHost demoPage ''Highlight the second project card.'') =
     Some [0, 1]"
proof -
  obtain c1 c2 where cards: "querySelectorAll selProjectCard demoPage = [c1, c2]"
    and paths: "fst c1 = [0, 1]" "fst c2 = [0, 2]"
    and attrs: "getAttribute (snd c1) ''data-project-order'' = Some ''2''"
      "getAttribute (snd c2) ''data-project-order'' = Some ''1''"
    and nums: "orderNumber demoHost c1 = Finite 2" "orderNumber demoHost c2 = Finite 1"
    using demo_cards
    by (cases "querySelectorAll selProjectCard demoPage";
        cases "tl (querySelectorAll selProjectCard demoPage)") auto
  note inst1 = project_card_resolution
      [of demoPage c1 "[c2]" "''Highlight the latest one''" demoHost c2 "[]"]
  note inst2 = project_card_resolution
      [of demoPage c1 "[c2]" "''Highlight the second project card.''" demoHost c2 "[]"]
  have r1: "findProjectCardByHint demoHost demoPage ''Highlight the latest one'' = Some c2"
    using inst1 cards attrs demo_cards by simp
  have r2: "findProjectCardByHint demoHost demoPage ''Highlight the second project card.'' = Some c1"
    using inst2 cards nums demo_cards by simp
  from r1 r2 paths demo_cards show ?thesis by simp
qed

subsection \<open>Filling several fields\<close>

lemma document_setFieldValue [simp]: "document (setFieldValue t v w) = document w"
  by (simp add: setFieldValue_def addEffect_def)

lemma document_addHighlight [simp]: "document (addHighlight t w) = document w"
  by (simp add: addHighlight_def)

lemma fieldTarget_document:
  "document w' = document w \<Longrightarrow> fieldTarget h w' f sel = fieldTarget h w f sel"
  by (simp add: fieldTarget_def safeQuery_def split: option.splits)

lemma fieldTarget_after_fill [simp]:
  "fieldTarget h (addHighlight t (setFieldValue t v w)) f sel = fieldTarget h w f sel"
  by (rule fieldTarget_document) simp

lemma targetPath_after_fill [simp]:
  "targetPath h (addHighlight t (setFieldValue t v w)) sel f = targetPath h w sel f"
  by (simp add: targetPath_def)




lemma applyFills_document [simp]: "document (applyFills h sel ups w) = document w"
  by (induction ups arbitrary: w) (auto split: option.splits)









subsection \<open>The explicit selector of fill_input\<close>

lemma fill_by_selector:
  assumes "readString args [''selector''] = Some s" "safeQuery h w s = Some t"
    and "tagOf (snd t) \<in> set [''input'', ''textarea'']"
    and "\<not> isObject (getProp args ''values'')" "readString args [''value''] = Some v"
  shows "success (fst (runFillInput h call args w)) \<and>
         fieldValues (snd (runFillInput h call args w)) (fst t) = Some v \<and>
         fst t \<in> highlighted (snd (runFillInput h call args w))"
proof -
  have "runFillInput h call args w = fillSingleValue h call args (Some s) w"
    using assms(1,4) by (cases "getProp args ''values''") (simp_all add: runFillInput_def Let_def)
  moreover have "fieldTarget h w f (Some s) = Some t" for f
    using assms(2) by (simp add: fieldTarget_def)
  ultimately show ?thesis
    using assms(3,5)
    by (auto simp: fillSingleValue_def fillSingleField_def Let_def result_def setFieldValue_def
          addHighlight_def addEffect_def)
qed

lemma selector_strategy_discards:
  assumes "readString args [''selector''] = Some s" "safeQuery h w s = Some t"
    and "isInsideChatUi (document w) t"
  shows "bySelectorHint h w args = None"
  using assms by (simp add: bySelectorHint_def)

lemma findElement_selector_only:
  assumes "bySelectorHint h w args = None"
    and "readString args [''sectionId'', ''section'', ''targetSection''] = None"
    and "readString args [''text'', ''label'', ''target'', ''projectName''] = None"
  shows "findElement h w args = None"
  using assms by (simp add: findElement_def bySectionHint_def byTextHint_def)

text \<open>
  C9. The explicit selector of \<open>fill_input\<close> is not checked against the chat interface:
  when the selector of the request matches an input or textarea inside the chat
  interface, \<open>fill_input\<close> with a single value succeeds, commits the value to that
  element and highlights it. The selector strategy of the click and highlight chain
  discards the same element, so that with no other hint \<open>findElement\<close> finds nothing
  and \<open>highlight_element\<close> and \<open>click_element\<close> fail.
\<close>

theorem fill_input_selector_not_excluded:
  "readString args [''selector''] = Some s \<and> safeQuery h w s = Some t \<and>
   isInsideChatUi (document w) t \<and> tagOf (snd t) \<in> set [''input'', ''textarea''] \<longrightarrow>
     (\<not> isObject (getProp args ''values'') \<and> readString args [''value''] = Some v \<longrightarrow>
        success (fst (runFillInput h call args w)) \<and>
        fieldValues (snd (runFillInput h call args w)) (fst t) = Some v \<and>
        fst t \<in> highlighted (snd (runFillInput h call args w))) \<and>
     bySelectorHint h w args = None \<and>
     (readString args [''sectionId'', ''section'', ''targetSection''] = None \<and>
      readString args [''text'', ''label'', ''target'', ''projectName''] = None \<longrightarrow>
        findElement h w args = None \<and>
        \<not> success (fst (runHighlightElement h call args w)) \<and>
        \<not> success (fst (runClickElement h call args w)))"
proof (intro impI)
  assume hyp: "readString args [''selector''] = Some s \<and> safeQuery h w s = Some t \<and>
    isInsideChatUi (document w) t \<and> tagOf (snd t) \<in> set [''input'', ''textarea'']"
  then have a: "readString args [''selector''] = Some s" and b: "safeQuery h w s = Some t"
    and c: "isInsideChatUi (document w) t" and d: "tagOf (snd t) \<in> set [''input'', ''textarea'']"
    by blast+
  have fill: "\<not> isObject (getProp args ''values'') \<and> readString args [''value''] = Some v \<longrightarrow>
        success (fst (runFillInput h call args w)) \<and>
        fieldValues (snd (runFillInput h call args w)) (fst t) = Some v \<and>
        fst t \<in> highlighted (snd (runFillInput h call args w))"
    using fill_by_selector [OF a b d] by blast
  have disc: "bySelectorHint h w args = None"
    using a b c by (rule selector_strategy_discards)
  have none: "findElement h w args = None \<and>
        \<not> success (fst (runHighlightElement h call args w)) \<and>
        \<not> success (fst (runClickElement h call args w))"
    if "readString args [''sectionId'', ''section'', ''targetSection''] = None \<and>
        readString args [''text'', ''label'', ''target'', ''projectName''] = None"
  proof -
    have "findElement h w args = None"
      using disc that by (simp add: findElement_selector_only)
    then show ?thesis
      by (simp add: runHighlightElement_def runClickElement_def result_def)
  qed
  from fill disc none
  show "(\<not> isObject (getProp args ''values'') \<and> readString args [''value''] = Some v \<longrightarrow>
        success (fst (runFillInput h call args w)) \<and>
        fieldValues (snd (runFillInput h call args w)) (fst t) = Some v \<and>
        fst t \<in> highlighted (snd (runFillInput h call args w))) \<and>
     bySelectorHint h w args = None \<and>
     (readString args [''sectionId'', ''section'', ''targetSection''] = None \<and>
      readString args [''text'', ''label'', ''target'', ''projectName''] = None \<longrightarrow>
        findElement h w args = None \<and>
        \<not> success (fst (runHighlightElement h call args w)) \<and>
        \<not> success (fst (runClickElement h call args w)))"
    by blast
qed

lemma demo_chat_input:
  "readString chatInputArgs [''selector''] = Some ''#chat-input'' \<and>
   map_option fst (safeQuery demoHost demoWorld ''#chat-input'') = Some [2, 0] \<and>
   map_option (\<lambda>t. isInsideChatUi (document demoWorld) t) (safeQuery demoHost demoWorld ''#chat-input'') =
     Some True \<and>
   map_option (\<lambda>t. tagOf (snd t)) (safeQuery demoHost demoWorld ''#chat-input'') = Some ''textarea'' \<and>
   \<not> isObject (getProp chatInputArgs ''values'') \<and>
   readString chatInputArgs [''value''] = Some ''hi'' \<and>
   readString chatInputArgs [''sectionId'', ''section'', ''targetSection''] = None \<and>
   readString chatInputArgs [''text'', ''label'', ''target'', ''projectName''] = None"
  by code_simp

theorem fill_input_selector_not_excluded_witness:
  "\<exists>t. readString chatInputArgs [''selector''] = Some ''#chat-input'' \<and>
     safeQuery demoHost demoWorld ''#chat-input'' = Some t \<and> fst t = [2, 0] \<and>
     isInsideChatUi (document demoWorld) t \<and> tagOf (snd t) = ''textarea'' \<and>
     success (fst (runFillInput demoHost (fillCall chatInputArgs) chatInputArgs demoWorld)) \<and>
     fieldValues (snd (runFillInput demoHost (fillCall chatInputArgs) chatInputArgs demoWorld)) [2, 0] =
       Some ''hi'' \<and>
     [2, 0] \<in> highlighted (snd (runFillInput demoHost (fillCall chatInputArgs) chatInputArgs demoWorld)) \<and>
     findElement demoHost demoWorld chatInputArgs = None \<and>
     \<not> success (fst (runHighlightElement demoHost (fillCall chatInputArgs) chatInputArgs demoWorld))"
proof -
  obtain t where t: "safeQuery demoHost demoWorld ''#chat-input'' = Some t" "fst t = [2, 0]"
    "isInsideChatUi (document demoWorld) t" "tagOf (snd t) = ''textarea''"
    using demo_chat_input by (cases "safeQuery demoHost demoWorld ''#chat-input''") auto
  from fill_input_selector_not_excluded
         [of chatInputArgs "''#chat-input''" demoHost demoWorld t "''hi''" "fillCall chatInputArgs"]
       demo_chat_input t
  show ?thesis by auto
qed

end
